theory Spec2Isabelle
  imports Complex_Main "HOL-Library.Sublist"
begin

section \<open>Strings and values of the runtime\<close>

text \<open>
  The three screens of the movie planner are React components written in TypeScript:
  \<^verbatim>\<open>src/app/page.tsx\<close> (the Auth screen, \<open>HomePage\<close>) and
  \<^verbatim>\<open>src/app/discover/page.tsx\<close>, which holds the Discovery screen
  (\<open>DiscoverPage\<close>) and, after it, the Account screen (\<open>AccountPage\<close>).

  A string is a list of bytes, the UTF-8 encoding of the text. The built-in string
  operations the screens call are modelled on that encoding.
\<close>

text \<open>
  \<open>String.prototype.trim\<close> removes white space and line terminators from both ends:
  U+0009 to U+000D, U+0020, U+00A0, U+1680, U+2000 to U+200A, U+2028, U+2029, U+202F,
  U+205F, U+3000 and U+FEFF. The list holds their UTF-8 encodings.
\<close>

definition white_space :: "string list" where
  "white_space =
     [[CHR 0x09], [CHR 0x0A], [CHR 0x0B], [CHR 0x0C], [CHR 0x0D], [CHR 0x20],
      [CHR 0xC2, CHR 0xA0],
      [CHR 0xE1, CHR 0x9A, CHR 0x80],
      [CHR 0xE2, CHR 0x80, CHR 0x80], [CHR 0xE2, CHR 0x80, CHR 0x81],
      [CHR 0xE2, CHR 0x80, CHR 0x82], [CHR 0xE2, CHR 0x80, CHR 0x83],
      [CHR 0xE2, CHR 0x80, CHR 0x84], [CHR 0xE2, CHR 0x80, CHR 0x85],
      [CHR 0xE2, CHR 0x80, CHR 0x86], [CHR 0xE2, CHR 0x80, CHR 0x87],
      [CHR 0xE2, CHR 0x80, CHR 0x88], [CHR 0xE2, CHR 0x80, CHR 0x89],
      [CHR 0xE2, CHR 0x80, CHR 0x8A],
      [CHR 0xE2, CHR 0x80, CHR 0xA8], [CHR 0xE2, CHR 0x80, CHR 0xA9],
      [CHR 0xE2, CHR 0x80, CHR 0xAF],
      [CHR 0xE2, CHR 0x81, CHR 0x9F],
      [CHR 0xE3, CHR 0x80, CHR 0x80],
      [CHR 0xEF, CHR 0xBB, CHR 0xBF]]"

lemma white_space_nonempty: "w \<in> set white_space \<Longrightarrow> w \<noteq> []"
  by (auto simp: white_space_def)

function trimStart :: "string \<Rightarrow> string" where
  "trimStart s =
     (case find (\<lambda>w. prefix w s) white_space of
        None \<Rightarrow> s
      | Some w \<Rightarrow> trimStart (drop (length w) s))"
  by pat_completeness auto
termination
proof (relation "measure length")
  show "wf (measure length)" by simp
next
  fix s w :: string
  assume f: "find (\<lambda>w. prefix w s) white_space = Some w"
  then have "w \<in> set white_space" and p: "prefix w s"
    by (auto simp: find_Some_iff)
  then have "w \<noteq> []" by (simp add: white_space_nonempty)
  with p have "s \<noteq> []" by auto
  with \<open>w \<noteq> []\<close> show "(drop (length w) s, s) \<in> measure length" by simp
qed

function trimEnd :: "string \<Rightarrow> string" where
  "trimEnd s =
     (case find (\<lambda>w. suffix w s) white_space of
        None \<Rightarrow> s
      | Some w \<Rightarrow> trimEnd (take (length s - length w) s))"
  by pat_completeness auto
termination
proof (relation "measure length")
  show "wf (measure length)" by simp
next
  fix s w :: string
  assume f: "find (\<lambda>w. suffix w s) white_space = Some w"
  then have "w \<in> set white_space" and p: "suffix w s"
    by (auto simp: find_Some_iff)
  then have "w \<noteq> []" by (simp add: white_space_nonempty)
  with p have "s \<noteq> []" by auto
  with \<open>w \<noteq> []\<close> show "(take (length s - length w) s, s) \<in> measure length" by simp
qed

declare trimStart.simps [simp del] trimEnd.simps [simp del]

definition trim :: "string \<Rightarrow> string" where
  "trim s = trimEnd (trimStart s)"

text \<open>
  \<open>String.prototype.toLowerCase\<close> folds every cased letter of Unicode, by the case
  tables of the runtime. The tables are not part of the repository: the code that calls
  \<open>toLowerCase\<close> takes it as its first argument.
\<close>


text \<open>
  \<open>String.prototype.repeat\<close> throws a \<open>RangeError\<close> on a negative count.
\<close>

datatype js_error = RangeError | TypeError

fun repeat_nat :: "string \<Rightarrow> nat \<Rightarrow> string" where
  "repeat_nat s 0 = []"
| "repeat_nat s (Suc n) = s @ repeat_nat s n"

definition repeat :: "string \<Rightarrow> int \<Rightarrow> js_error + string" where
  "repeat s count = (if count < 0 then Inl RangeError else Inr (repeat_nat s (nat count)))"

text \<open>The decimal text of an integer, as a template literal or JSX prints it.\<close>

definition digit_char :: "nat \<Rightarrow> char" where
  "digit_char d = char_of (48 + d)"

function show_nat :: "nat \<Rightarrow> string" where
  "show_nat n = (if n < 10 then [digit_char n] else show_nat (n div 10) @ [digit_char (n mod 10)])"
  by pat_completeness auto
termination
  by (relation "measure id") auto

declare show_nat.simps [simp del]

definition show_int :: "int \<Rightarrow> string" where
  "show_int i = (if i < 0 then CHR ''-'' # show_nat (nat (- i)) else show_nat (nat i))"

text \<open>
  A number of the response that is an integer, as JSX prints it: its decimal digits, as
  long as its magnitude is at most \<open>2^53\<close>. Beyond that the number the runtime holds is
  the nearest double, printed in exponent notation from \<open>10^21\<close> on, which is outside
  this model: the result is \<open>None\<close> there.
\<close>

definition show_number :: "int \<Rightarrow> string option" where
  "show_number i = (if \<bar>i\<bar> \<le> 2 ^ 53 then Some (show_int i) else None)"

text \<open>
  \<open>Number.prototype.toFixed(1)\<close>: the sign, then the integer \<open>n\<close> nearest to ten times the
  magnitude (the larger one on a tie), printed with one digit after the point. From
  \<open>10^21\<close> on the runtime prints exponent notation instead, which is outside this
  model: the result is \<open>None\<close> there.
\<close>

definition toFixed1 :: "rat \<Rightarrow> string option" where
  "toFixed1 x =
     (if 10 ^ 21 \<le> \<bar>x\<bar> then None
      else
        let n = nat \<lfloor>\<bar>x\<bar> * 10 + 1 / 2\<rfloor>
        in Some ((if x < 0 then ''-'' else '''') @
                 show_nat (n div 10) @ ''.'' @ [digit_char (n mod 10)]))"

text \<open>
  A value that \<open>JSON.parse\<close> yields or \<open>JSON.stringify\<close> takes. An object is the list
  of its entries, in the order of insertion, each key once.
\<close>

datatype json =
  JNull
| JBool bool
| JNum rat
| JStr string
| JArr "json list"
| JObj "(string \<times> json) list"

text \<open>Truthiness, as \<open>!\<close>, \<open>||\<close> and \<open>&&\<close> test it.\<close>

fun truthy :: "json \<Rightarrow> bool" where
  "truthy JNull = False"
| "truthy (JBool b) = b"
| "truthy (JNum n) = (n \<noteq> 0)"
| "truthy (JStr s) = (s \<noteq> [])"
| "truthy (JArr xs) = True"
| "truthy (JObj kvs) = True"

definition truthy_str :: "string option \<Rightarrow> bool" where
  "truthy_str v = (case v of None \<Rightarrow> False | Some s \<Rightarrow> s \<noteq> [])"

definition truthy_num :: "rat option \<Rightarrow> bool" where
  "truthy_num v = (case v of None \<Rightarrow> False | Some n \<Rightarrow> n \<noteq> 0)"

text \<open>
  Reading a property that only an object of the response can own, \<open>v.k\<close>: a
  \<open>TypeError\<close> on \<open>null\<close>, \<open>undefined\<close> (\<open>None\<close>) on every other value but an object
  with that key. With optional chaining, \<open>v?.k\<close>, the read of \<open>null\<close> is \<open>undefined\<close>
  too.
\<close>

fun read_property :: "json \<Rightarrow> string \<Rightarrow> js_error + json option" where
  "read_property JNull k = Inl TypeError"
| "read_property (JObj kvs) k = Inr (map_of kvs k)"
| "read_property v k = Inr None"

definition optional_property :: "json \<Rightarrow> string \<Rightarrow> json option" where
  "optional_property v k = (case read_property v k of Inl e \<Rightarrow> None | Inr field \<Rightarrow> field)"

text \<open>\<open>a || null\<close> on a string: the string when it is not empty.\<close>

definition str_or_null :: "string \<Rightarrow> json" where
  "str_or_null s = (if s = [] then JNull else JStr s)"

definition num_or_null :: "rat option \<Rightarrow> json" where
  "num_or_null v = (case v of None \<Rightarrow> JNull | Some n \<Rightarrow> JNum n)"

text \<open>
  The result of \<open>Number(s)\<close>: not a number, an infinity, or a finite value. Doubles are
  rationals, so \<open>Finite\<close> ranges over \<open>rat\<close>.
\<close>

datatype jsnum = NaN | NegInfinity | Finite rat | PosInfinity

text \<open>
  \<open>Number\<close> itself (the numeric literals of the language, rounded to a double) is a
  built-in of the runtime: the handlers that call it take it as their first argument.
  The test \<open>!Number.isNaN(parsed) && parsed >= 1 && parsed <= 5\<close> of both
  \<open>markWatched\<close> handlers, with the value it lets through:
\<close>

definition checked_rating :: "jsnum \<Rightarrow> rat option" where
  "checked_rating parsed =
     (case parsed of
        Finite x \<Rightarrow> if 1 \<le> x \<and> x \<le> 5 then Some x else None
      | _ \<Rightarrow> None)"

section \<open>The browser around the screens\<close>

text \<open>
  What a handler can change outside its component: the two slots of \<open>localStorage\<close>, the
  router, the network and the alert boxes. Calls are recorded in the order they are made.
  \<open>console.error\<close> and the texts of the prompts are not recorded.

  A handler is modelled from its call to its end. What it waits for is an argument: the
  reply of the network to each request it may send, and what the user answered to each
  prompt. The state it returns is the state of the component after all its updates. The
  handlers run in the browser, where \<open>window\<close> is defined.
\<close>

record storage =
  mp_sessionToken :: "string option"
  mp_username :: "string option"

datatype nav = Push string | Replace string

datatype http_method = GET | POST | PUT | DELETE

text \<open>
  A call of \<open>fetch\<close>. The path is relative to \<open>API_BASE_URL\<close>; the query holds the
  parameters before \<open>encodeURIComponent\<close>; the body is the value given to
  \<open>JSON.stringify\<close>.
\<close>

record request =
  req_method :: http_method
  req_path :: string
  req_query :: "(string \<times> string) list"
  req_headers :: "(string \<times> string) list"
  req_body :: "json option"

record world =
  localStorage :: storage
  router :: "nav list"
  requests :: "request list"
  alerts :: "string list"

text \<open>
  What \<open>await fetch(...)\<close> gives back: a rejection (a thrown error and its \<open>message\<close>, if
  it has one), or a response with its status and what reading its body yields.
\<close>

datatype 'a reply = Rejected "string option" | Response nat 'a

definition ok :: "nat \<Rightarrow> bool" where
  "ok status = (200 \<le> status \<and> status \<le> 299)"

text \<open>\<open>err.message ?? fallback\<close>\<close>

definition message_or :: "string option \<Rightarrow> string \<Rightarrow> string" where
  "message_or msg fallback = (case msg of None \<Rightarrow> fallback | Some m \<Rightarrow> m)"

definition http_error :: "nat \<Rightarrow> string" where
  "http_error status = ''HTTP '' @ show_nat status"

definition send :: "request \<Rightarrow> world \<Rightarrow> world" where
  "send r w = w\<lparr>requests := requests w @ [r]\<rparr>"

definition alert :: "string \<Rightarrow> world \<Rightarrow> world" where
  "alert msg w = w\<lparr>alerts := alerts w @ [msg]\<rparr>"

definition navigate :: "nav \<Rightarrow> world \<Rightarrow> world" where
  "navigate n w = w\<lparr>router := router w @ [n]\<rparr>"

definition bearer :: "string option \<Rightarrow> string \<times> string" where
  "bearer token = (''Authorization'', ''Bearer '' @ (case token of None \<Rightarrow> ''null'' | Some t \<Rightarrow> t))"

definition content_json :: "string \<times> string" where
  "content_json = (''Content-Type'', ''application/json'')"

text \<open>
  \<open>handleLogout\<close> is written twice, with the same body, in \<open>DiscoverPage\<close> and in
  \<open>AccountPage\<close>: both slots are removed, then the router goes to the Auth screen.
\<close>

definition handleLogout :: "world \<Rightarrow> world" where
  "handleLogout w =
     navigate (Push ''/'')
       (w\<lparr>localStorage := \<lparr>mp_sessionToken = None, mp_username = None\<rparr>\<rparr>)"

text \<open>The state both protected screens keep of the session.\<close>

record session_state =
  sessionToken :: "string option"
  currentUser :: "string option"

definition en_dash :: string where
  "en_dash = [CHR 0xE2, CHR 0x80, CHR 0x93]"

text \<open>The texts of the two alerts on a rating that is not accepted.\<close>

definition discover_invalid_rating :: string where
  "discover_invalid_rating = ''Invalid rating, must be 1'' @ en_dash @ ''5. Saving with no rating.''"

definition account_invalid_rating :: string where
  "account_invalid_rating = ''Invalid rating, must be 1'' @ en_dash @ ''5.''"

text \<open>
  The rating prompt of both \<open>markWatched\<close> handlers. \<open>ratingInput\<close> is what
  \<open>window.prompt\<close> returned (\<open>None\<close> when cancelled), \<open>initial\<close> the value of
  \<open>ratingValue\<close> before the prompt, \<open>warning\<close> the text of the alert. The result is the
  final \<open>ratingValue\<close> and the alerts shown.
\<close>

definition read_rating ::
  "(string \<Rightarrow> jsnum) \<Rightarrow> rat option \<Rightarrow> string \<Rightarrow> string option \<Rightarrow> rat option \<times> string list" where
  "read_rating Number initial warning ratingInput =
     (case ratingInput of
        None \<Rightarrow> (initial, [])
      | Some inp \<Rightarrow>
          if trim inp = [] then (initial, [])
          else (case checked_rating (Number (trim inp)) of
                  Some parsed \<Rightarrow> (Some parsed, [])
                | None \<Rightarrow> (initial, [warning])))"

text \<open>\<open>reviewText\<close> after the review prompt.\<close>

definition read_review :: "string \<Rightarrow> string option \<Rightarrow> string" where
  "read_review initial reviewInput = (case reviewInput of None \<Rightarrow> initial | Some r \<Rightarrow> r)"

section \<open>The Discovery screen\<close>

text \<open>
  The types of the screen. A field name that several types share carries a prefix of its
  type (\<open>dm_title\<close>, \<open>rs_title\<close> and, on the Account screen, \<open>m_title\<close>). A count and a
  rounded rating are integers; an average is a rational, as every double is.
\<close>

record DiscoverMovie =
  dm_id :: string
  dm_title :: string
  dm_year :: int
  dm_genres :: "string list"
  dm_description :: string
  dm_imageUrl :: string

record RatingSummary =
  rs_title :: string
  averageRating :: rat
  roundedRating :: int
  ratingCount :: int

definition DISCOVER_MOVIES :: "DiscoverMovie list" where
  "DISCOVER_MOVIES =
     [\<lparr>dm_id = ''disc-1'', dm_title = ''Inception'', dm_year = 2010,
       dm_genres = [''Sci-Fi'', ''Thriller''],
       dm_description = ''A thief who steals corporate secrets through the use of dream-sharing technology is given a chance at redemption.'',
       dm_imageUrl = ''https://encrypted-tbn0.gstatic.com/images?q=tbn:ANd9GcTmaTHAbTa2MTEGM_PwqBU61jEzjEcQfx-Zb39fyctMdZheq2Uj''\<rparr>,
      \<lparr>dm_id = ''disc-2'', dm_title = ''The Dark Knight'', dm_year = 2008,
       dm_genres = [''Action'', ''Crime''],
       dm_description = ''Batman faces the Joker, a criminal mastermind who plunges Gotham into chaos.'',
       dm_imageUrl = ''https://encrypted-tbn1.gstatic.com/images?q=tbn:ANd9GcR2Cghv6inVgiEL-vAYFJg8Rff175LiNaWKzV4tytSLG6D0c2n_''\<rparr>,
      \<lparr>dm_id = ''disc-3'', dm_title = ''La La Land'', dm_year = 2016,
       dm_genres = [''Romance'', ''Drama'', ''Musical''],
       dm_description = ''A jazz musician and an aspiring actress try to make it in Los Angeles while navigating love and ambition.'',
       dm_imageUrl = ''https://theposterdepot.com/cdn/shop/products/lala-land-poster-1120201602_d2a246ae-5c6e-44ca-8904-ba83fce4fe20_1024x1024@2x.jpg?v=1549386938''\<rparr>,
      \<lparr>dm_id = ''disc-4'', dm_title = ''Spirited Away'', dm_year = 2001,
       dm_genres = [''Animation'', ''Fantasy''],
       dm_description = ''A young girl enters a world of spirits and must save her parents and find her way back.'',
       dm_imageUrl = ''https://encrypted-tbn0.gstatic.com/images?q=tbn:ANd9GcTlyek7tCF3dXq_2y6E5NGajum2a_s8clAIu6WrdOxsO_Drmi04''\<rparr>]"

text \<open>The two glyphs of the star string, U+2605 and U+2606.\<close>

definition star_full :: string where
  "star_full = [CHR 0xE2, CHR 0x98, CHR 0x85]"

definition star_empty :: string where
  "star_empty = [CHR 0xE2, CHR 0x98, CHR 0x86]"

text \<open>\<open>renderStars\<close> of \<open>DiscoverPage\<close>, on an integer rating.\<close>

definition renderStars :: "int \<Rightarrow> js_error + string" where
  "renderStars rounded =
     (let r = max 1 (min 5 rounded)
      in case repeat star_full r of
           Inl e \<Rightarrow> Inl e
         | Inr full \<Rightarrow>
             (case repeat star_empty (5 - r) of
                Inl e \<Rightarrow> Inl e
              | Inr empties \<Rightarrow> Inr (full @ empties)))"

record discover_state = session_state +
  error :: "string option"
  busyId :: "string option"
  ratings :: "RatingSummary list"

text \<open>The auth guard, an effect that runs once the screen is mounted.\<close>

definition discover_auth_guard :: "discover_state \<Rightarrow> world \<Rightarrow> discover_state \<times> world" where
  "discover_auth_guard s w =
     (let token = mp_sessionToken (localStorage w);
          user = mp_username (localStorage w)
      in if \<not> truthy_str token \<or> \<not> truthy_str user then (s, navigate (Replace ''/'') w)
         else (s\<lparr>sessionToken := token, currentUser := user\<rparr>, w))"

text \<open>
  The effect that fetches the global ratings. The body of the response is \<open>Inl\<close> when
  \<open>res.json()\<close> rejects.
\<close>

definition fetchRatings ::
  "(string option + RatingSummary list) reply \<Rightarrow> discover_state \<Rightarrow> world \<Rightarrow> discover_state \<times> world" where
  "fetchRatings res s w =
     (let w1 = send \<lparr>req_method = GET, req_path = ''/ratings'', req_query = [],
                     req_headers = [], req_body = None\<rparr> w
      in case res of
           Rejected err \<Rightarrow> (s, w1)
         | Response status body \<Rightarrow>
             if \<not> ok status then (s, w1)
             else (case body of
                     Inl err \<Rightarrow> (s, w1)
                   | Inr data \<Rightarrow> (s\<lparr>ratings := data\<rparr>, w1)))"

definition getGlobalSummary :: "discover_state \<Rightarrow> string \<Rightarrow> RatingSummary option" where
  "getGlobalSummary s title =
     (case find (\<lambda>r. rs_title r = title) (ratings s) of
        None \<Rightarrow> None
      | Some match \<Rightarrow> if ratingCount match = 0 then None else Some match)"

definition addToList ::
  "DiscoverMovie \<Rightarrow> 'a reply \<Rightarrow> discover_state \<Rightarrow> world \<Rightarrow> discover_state \<times> world" where
  "addToList movie res s w =
     (if \<not> truthy_str (sessionToken s)
      then (s\<lparr>error := Some ''Please log in again.''\<rparr>, navigate (Replace ''/'') w)
      else
        let s1 = s\<lparr>error := None, busyId := Some (dm_id movie)\<rparr>;
            w1 = send \<lparr>req_method = POST, req_path = ''/movies'', req_query = [],
                       req_headers = [content_json, bearer (sessionToken s)],
                       req_body = Some (JObj [(''title'', JStr (dm_title movie)),
                                              (''status'', JStr ''PLAN_TO_WATCH'')])\<rparr> w;
            r = (case res of
                   Rejected err \<Rightarrow>
                     (s1\<lparr>error := Some (message_or err ''Failed to add movie'')\<rparr>, w1)
                 | Response status body \<Rightarrow>
                     if status = 401 then (s1, handleLogout w1)
                     else if \<not> ok status
                     then (s1\<lparr>error := Some (message_or (Some (http_error status))
                                                ''Failed to add movie'')\<rparr>, w1)
                     else (s1, w1))
        in ((fst r)\<lparr>busyId := None\<rparr>, snd r))"

definition discover_markWatched ::
  "(string \<Rightarrow> jsnum) \<Rightarrow> DiscoverMovie \<Rightarrow> string option \<Rightarrow> string option \<Rightarrow> 'a reply \<Rightarrow>
     discover_state \<Rightarrow> world \<Rightarrow> discover_state \<times> world" where
  "discover_markWatched Number movie ratingInput reviewInput res s w =
     (if \<not> truthy_str (sessionToken s)
      then (s\<lparr>error := Some ''Please log in again.''\<rparr>, navigate (Replace ''/'') w)
      else
        let s1 = s\<lparr>error := None\<rparr>;
            rated = read_rating Number None discover_invalid_rating ratingInput;
            ratingValue = fst rated;
            w1 = w\<lparr>alerts := alerts w @ snd rated\<rparr>;
            reviewText = read_review [] reviewInput;
            s2 = s1\<lparr>busyId := Some (dm_id movie)\<rparr>;
            w2 = send \<lparr>req_method = POST, req_path = ''/movies'', req_query = [],
                       req_headers = [content_json, bearer (sessionToken s)],
                       req_body = Some (JObj [(''title'', JStr (dm_title movie)),
                                              (''status'', JStr ''HAVE_WATCHED''),
                                              (''rating'', num_or_null ratingValue),
                                              (''review'', str_or_null (trim reviewText))])\<rparr> w1;
            r = (case res of
                   Rejected err \<Rightarrow>
                     (s2\<lparr>error := Some (message_or err ''Failed to add watched movie'')\<rparr>, w2)
                 | Response status body \<Rightarrow>
                     if status = 401 then (s2, handleLogout w2)
                     else if \<not> ok status
                     then (s2\<lparr>error := Some (message_or (Some (http_error status))
                                                ''Failed to add watched movie'')\<rparr>, w2)
                     else (s2, w2))
        in ((fst r)\<lparr>busyId := None\<rparr>, snd r))"

text \<open>
  What the screen renders for one catalog entry: the title, the two buttons, and the
  badge of the global rating (the star string and the label beside it) when there is a
  summary to show.
\<close>

definition ratingLabel :: "RatingSummary \<Rightarrow> string option" where
  "ratingLabel global =
     (case toFixed1 (averageRating global) of
        None \<Rightarrow> None
      | Some average \<Rightarrow>
          (case show_number (ratingCount global) of
             None \<Rightarrow> None
           | Some n \<Rightarrow>
               Some (average @ ''/5 from'' @ '' '' @ n @ '' rating'' @
                     (if ratingCount global = 1 then [] else ''s'') @ '' (global)'')))"

record rating_badge =
  badge_stars :: "js_error + string"
  badge_label :: "string option"

record card =
  card_key :: string
  card_title :: string
  card_year :: int
  card_genres :: "string list"
  card_description :: string
  card_image :: string
  add_disabled :: bool
  add_label :: string
  mark_disabled :: bool
  mark_label :: string
  card_badge :: "rating_badge option"

definition render_card :: "discover_state \<Rightarrow> DiscoverMovie \<Rightarrow> card" where
  "render_card s movie =
     (let global = getGlobalSummary s (dm_title movie);
          busy = (busyId s = Some (dm_id movie))
      in \<lparr>card_key = dm_id movie,
          card_title = dm_title movie,
          card_year = dm_year movie,
          card_genres = dm_genres movie,
          card_description = dm_description movie,
          card_image = dm_imageUrl movie,
          add_disabled = (\<not> truthy_str (sessionToken s) \<or> busy),
          add_label = (if busy then ''Adding...'' else ''Add to My List''),
          mark_disabled = (\<not> truthy_str (sessionToken s) \<or> busy),
          mark_label = (if busy then ''Saving...'' else ''Mark Watched & Review''),
          card_badge =
            map_option
              (\<lambda>g. \<lparr>badge_stars = renderStars (roundedRating g), badge_label = ratingLabel g\<rparr>)
              global\<rparr>)"

definition DiscoverPage_render :: "discover_state \<Rightarrow> card list" where
  "DiscoverPage_render s = map (render_card s) DISCOVER_MOVIES"

text \<open>
  The states of the Discovery screen: the initial one, and those its effects and handlers
  lead to, each run from its call to its end, in any browser and with any reply.
\<close>

inductive discover_reachable :: "discover_state \<Rightarrow> bool" where
  initial:
    "discover_reachable
       \<lparr>sessionToken = None, currentUser = None, error = None, busyId = None, ratings = []\<rparr>"
| guarded: "discover_reachable s \<Longrightarrow> discover_reachable (fst (discover_auth_guard s w))"
| rated: "discover_reachable s \<Longrightarrow> discover_reachable (fst (fetchRatings res s w))"
| added:
    "discover_reachable s \<Longrightarrow> discover_reachable (fst (addToList entry (res' :: unit reply) s w))"
| marked:
    "discover_reachable s \<Longrightarrow>
       discover_reachable
         (fst (discover_markWatched Number entry ratingInput reviewInput (res' :: unit reply) s w))"

section \<open>The Auth screen\<close>

datatype AuthMode = login | register

record home_state =
  authMode :: AuthMode
  username :: string
  password :: string
  authLoading :: bool
  authError :: "json option"
  infoMessage :: "string option"

text \<open>The effect on mount: with a session in storage, go straight to Discovery.\<close>

definition home_redirect :: "world \<Rightarrow> world" where
  "home_redirect w =
     (let token = mp_sessionToken (localStorage w);
          user = mp_username (localStorage w)
      in if truthy_str token \<and> truthy_str user then navigate (Replace ''/discover'') w else w)"

text \<open>
  The message of the \<open>TypeError\<close> that reading a property of \<open>null\<close> throws, in the
  wording of V8. Other engines word it differently; nothing below depends on the wording.
\<close>

definition null_property_message :: "string \<Rightarrow> string" where
  "null_property_message p =
     ''Cannot read properties of null (reading '' @ [CHR 0x27] @ p @ [CHR 0x27] @ '')''"

text \<open>
  \<open>handleAuthSubmit\<close>. The body of the response is \<open>None\<close> when \<open>res.json()\<close> rejects,
  and \<open>data\<close> is the empty object then. \<open>String\<close> is the conversion that
  \<open>localStorage.setItem\<close> applies to a value that is not a string, a built-in of the
  runtime. The \<open>finally\<close> block ends every path that entered \<open>try\<close>.
\<close>

definition handleAuthSubmit ::
  "(json \<Rightarrow> string) \<Rightarrow> json option reply \<Rightarrow> home_state \<Rightarrow> world \<Rightarrow> home_state \<times> world" where
  "handleAuthSubmit String res s w =
     (let s1 = s\<lparr>authError := None, infoMessage := None\<rparr>;
          trimmedUser = trim (username s);
          trimmedPass = trim (password s)
      in if trimmedUser = [] \<or> trimmedPass = []
         then (s1\<lparr>authError := Some (JStr ''Username and password are required.'')\<rparr>, w)
         else
           let s2 = s1\<lparr>authLoading := True\<rparr>;
               path = (if authMode s = login then ''/auth/login'' else ''/auth/register'');
               w1 = send \<lparr>req_method = POST, req_path = path, req_query = [],
                          req_headers = [content_json],
                          req_body = Some (JObj [(''username'', JStr trimmedUser),
                                                 (''password'', JStr trimmedPass)])\<rparr> w;
               r = (case res of
                      Rejected err \<Rightarrow>
                        (s2\<lparr>authError := Some (JStr (message_or err ''Auth error''))\<rparr>, w1)
                    | Response code body \<Rightarrow>
                        let data = (case body of None \<Rightarrow> JObj [] | Some d \<Rightarrow> d)
                        in if \<not> ok code
                           then (s2\<lparr>authError :=
                                       Some (case optional_property data ''error'' of
                                               None \<Rightarrow>
                                                 JStr (if authMode s = login then ''Login failed''
                                                       else ''Registration failed'')
                                             | Some e \<Rightarrow>
                                                 if truthy e then e
                                                 else JStr (if authMode s = login then ''Login failed''
                                                            else ''Registration failed''))\<rparr>, w1)
                           else if authMode s = register
                           then (s2\<lparr>authMode := login,
                                    infoMessage := Some ''Account created. Please log in.''\<rparr>, w1)
                           else (case read_property data ''sessionToken'' of
                                   Inl e \<Rightarrow>
                                     (s2\<lparr>authError :=
                                           Some (JStr (message_or
                                                         (Some (null_property_message ''sessionToken''))
                                                         ''Auth error''))\<rparr>, w1)
                                 | Inr None \<Rightarrow>
                                     (s2\<lparr>authError :=
                                           Some (JStr ''No session token returned from server.'')\<rparr>, w1)
                                 | Inr (Some tok) \<Rightarrow>
                                     if \<not> truthy tok
                                     then (s2\<lparr>authError :=
                                                 Some (JStr ''No session token returned from server.'')\<rparr>,
                                           w1)
                                     else (s2,
                                           navigate (Push ''/discover'')
                                             (w1\<lparr>localStorage :=
                                                   \<lparr>mp_sessionToken =
                                                      Some (case tok of JStr t \<Rightarrow> t | _ \<Rightarrow> String tok),
                                                    mp_username = Some trimmedUser\<rparr>\<rparr>))))
           in ((fst r)\<lparr>authLoading := False\<rparr>, snd r))"

text \<open>The toggle under the form.\<close>

definition toggle_mode :: "home_state \<Rightarrow> home_state" where
  "toggle_mode s = s\<lparr>authMode := (if authMode s = login then register else login)\<rparr>"

section \<open>The Account screen\<close>

record Movie =
  m_id :: string
  m_title :: string
  m_status :: string
  m_review :: "string option"
  m_rating :: "rat option"
  m_imageUrl :: "string option"

datatype WatchStatus = PLAN_TO_WATCH | HAVE_WATCHED

fun status_text :: "WatchStatus \<Rightarrow> string" where
  "status_text PLAN_TO_WATCH = ''PLAN_TO_WATCH''"
| "status_text HAVE_WATCHED = ''HAVE_WATCHED''"

text \<open>
  The type \<open>Filter\<close>: \<open>"ALL"\<close> (here \<open>FILTER_ALL\<close>) or one of the two status literals.
\<close>

datatype Filter = FILTER_ALL | Only WatchStatus


text \<open>
  The state of \<open>AccountPage\<close>. \<open>filter_choice\<close> is the state variable \<open>filter\<close>;
  \<open>title\<close>, \<open>status\<close>, \<open>review\<close>, \<open>rating\<close> and \<open>posterUrl\<close> are the fields of the form.
\<close>

record account_state = session_state +
  movies :: "Movie list"
  loadingMovies :: bool
  moviesError :: "string option"
  filter_choice :: Filter
  title :: string
  status :: WatchStatus
  review :: string
  rating :: "rat option"
  posterUrl :: string
  searchQuery :: string

definition account_auth_guard :: "account_state \<Rightarrow> world \<Rightarrow> account_state \<times> world" where
  "account_auth_guard s w =
     (let token = mp_sessionToken (localStorage w);
          user = mp_username (localStorage w)
      in if \<not> truthy_str token \<or> \<not> truthy_str user then (s, navigate (Replace ''/'') w)
         else (s\<lparr>sessionToken := token, currentUser := user\<rparr>, w))"

text \<open>
  \<open>fetchMovies\<close>. The body of the response is \<open>Inl\<close> (the message of the error) when
  \<open>res.json()\<close> rejects.
\<close>

definition fetchMovies ::
  "(string option + Movie list) reply \<Rightarrow> account_state \<Rightarrow> world \<Rightarrow> account_state \<times> world" where
  "fetchMovies res s w =
     (if \<not> truthy_str (sessionToken s) then (s, w)
      else
        let s1 = s\<lparr>loadingMovies := True, moviesError := None\<rparr>;
            w1 = send \<lparr>req_method = GET, req_path = ''/movies'', req_query = [],
                       req_headers = [bearer (sessionToken s)], req_body = None\<rparr> w;
            r = (case res of
                   Rejected err \<Rightarrow>
                     (s1\<lparr>moviesError := Some (message_or err ''Failed to load movies'')\<rparr>, w1)
                 | Response code body \<Rightarrow>
                     if code = 401 then (s1, handleLogout w1)
                     else if \<not> ok code
                     then (s1\<lparr>moviesError := Some (message_or (Some (http_error code))
                                                      ''Failed to load movies'')\<rparr>, w1)
                     else (case body of
                             Inl err \<Rightarrow>
                               (s1\<lparr>moviesError := Some (message_or err ''Failed to load movies'')\<rparr>,
                                w1)
                           | Inr data \<Rightarrow> (s1\<lparr>movies := data\<rparr>, w1)))
        in ((fst r)\<lparr>loadingMovies := False\<rparr>, snd r))"

text \<open>
  The four mutations. Each takes the reply to its own request and the reply to the
  \<open>GET\<close> of the list refetch that follows a success (\<open>await fetchMovies()\<close>).
\<close>

definition handleAddMovie ::
  "'a reply \<Rightarrow> (string option + Movie list) reply \<Rightarrow> account_state \<Rightarrow> world \<Rightarrow>
     account_state \<times> world" where
  "handleAddMovie res refetch s w =
     (if \<not> truthy_str (sessionToken s) then (s\<lparr>moviesError := Some ''Please log in first.''\<rparr>, w)
      else if trim (title s) = [] then (s, alert ''Please enter a title'' w)
      else if status s = HAVE_WATCHED \<and> \<not> truthy_num (rating s)
      then (s, alert (''Please select a rating 1'' @ en_dash @ ''5 for watched movies.'') w)
      else
        let payload =
              [(''title'', JStr (trim (title s))),
               (''status'', JStr (status_text (status s))),
               (''imageUrl'', str_or_null (trim (posterUrl s)))] @
              (if status s = HAVE_WATCHED
               then [(''rating'', num_or_null (rating s)),
                     (''review'', str_or_null (trim (review s)))]
               else []);
            s1 = s\<lparr>moviesError := None\<rparr>;
            w1 = send \<lparr>req_method = POST, req_path = ''/movies'', req_query = [],
                       req_headers = [content_json, bearer (sessionToken s)],
                       req_body = Some (JObj payload)\<rparr> w
        in case res of
             Rejected err \<Rightarrow> (s1\<lparr>moviesError := Some (message_or err ''Failed to add movie'')\<rparr>, w1)
           | Response code body \<Rightarrow>
               if code = 401 then (s1, handleLogout w1)
               else if \<not> ok code
               then (s1\<lparr>moviesError := Some (message_or (Some (http_error code))
                                                ''Failed to add movie'')\<rparr>, w1)
               else fetchMovies refetch
                      (s1\<lparr>title := [], status := PLAN_TO_WATCH, rating := None,
                          review := [], posterUrl := []\<rparr>) w1)"

definition updateMovieStatus ::
  "string \<Rightarrow> WatchStatus \<Rightarrow> 'a reply \<Rightarrow> (string option + Movie list) reply \<Rightarrow>
     account_state \<Rightarrow> world \<Rightarrow> account_state \<times> world" where
  "updateMovieStatus ident newStatus res refetch s w =
     (if \<not> truthy_str (sessionToken s) then (s\<lparr>moviesError := Some ''Please log in first.''\<rparr>, w)
      else
        let s1 = s\<lparr>moviesError := None\<rparr>;
            w1 = send \<lparr>req_method = PUT, req_path = ''/movies'', req_query = [(''id'', ident)],
                       req_headers = [content_json, bearer (sessionToken s)],
                       req_body = Some (JObj [(''status'', JStr (status_text newStatus))])\<rparr> w
        in case res of
             Rejected err \<Rightarrow>
               (s1\<lparr>moviesError := Some (message_or err ''Failed to update movie'')\<rparr>, w1)
           | Response code body \<Rightarrow>
               if code = 401 then (s1, handleLogout w1)
               else if \<not> ok code
               then (s1\<lparr>moviesError := Some (message_or (Some (http_error code))
                                                ''Failed to update movie'')\<rparr>, w1)
               else fetchMovies refetch s1 w1)"

definition account_markWatched ::
  "(string \<Rightarrow> jsnum) \<Rightarrow> Movie \<Rightarrow> string option \<Rightarrow> string option \<Rightarrow> 'a reply \<Rightarrow>
     (string option + Movie list) reply \<Rightarrow> account_state \<Rightarrow> world \<Rightarrow> account_state \<times> world" where
  "account_markWatched Number movie ratingInput reviewInput res refetch s w =
     (if \<not> truthy_str (sessionToken s) then (s\<lparr>moviesError := Some ''Please log in first.''\<rparr>, w)
      else
        let s1 = s\<lparr>moviesError := None\<rparr>;
            rated = read_rating Number (m_rating movie) account_invalid_rating ratingInput;
            ratingValue = fst rated;
            w1 = w\<lparr>alerts := alerts w @ snd rated\<rparr>;
            reviewText = read_review (case m_review movie of None \<Rightarrow> [] | Some r \<Rightarrow> r) reviewInput;
            w2 = send \<lparr>req_method = PUT, req_path = ''/movies'', req_query = [(''id'', m_id movie)],
                       req_headers = [content_json, bearer (sessionToken s)],
                       req_body = Some (JObj [(''status'', JStr ''HAVE_WATCHED''),
                                              (''rating'', num_or_null ratingValue),
                                              (''review'', str_or_null (trim reviewText))])\<rparr> w1
        in case res of
             Rejected err \<Rightarrow>
               (s1\<lparr>moviesError := Some (message_or err ''Failed to mark movie as watched'')\<rparr>, w2)
           | Response code body \<Rightarrow>
               if code = 401 then (s1, handleLogout w2)
               else if \<not> ok code
               then (s1\<lparr>moviesError := Some (message_or (Some (http_error code))
                                                ''Failed to mark movie as watched'')\<rparr>, w2)
               else fetchMovies refetch s1 w2)"

text \<open>\<open>deleteMovie\<close>; \<open>confirmed\<close> is what \<open>confirm("Delete this movie?")\<close> returned.\<close>

definition deleteMovie ::
  "string \<Rightarrow> bool \<Rightarrow> 'a reply \<Rightarrow> (string option + Movie list) reply \<Rightarrow>
     account_state \<Rightarrow> world \<Rightarrow> account_state \<times> world" where
  "deleteMovie ident confirmed res refetch s w =
     (if \<not> truthy_str (sessionToken s) then (s\<lparr>moviesError := Some ''Please log in first.''\<rparr>, w)
      else if \<not> confirmed then (s, w)
      else
        let s1 = s\<lparr>moviesError := None\<rparr>;
            w1 = send \<lparr>req_method = DELETE, req_path = ''/movies'', req_query = [(''id'', ident)],
                       req_headers = [bearer (sessionToken s)], req_body = None\<rparr> w
        in case res of
             Rejected err \<Rightarrow>
               (s1\<lparr>moviesError := Some (message_or err ''Failed to delete movie'')\<rparr>, w1)
           | Response code body \<Rightarrow>
               if code = 401 then (s1, handleLogout w1)
               else if \<not> ok code \<and> code \<noteq> 204
               then (s1\<lparr>moviesError := Some (message_or (Some (http_error code))
                                                ''Failed to delete movie'')\<rparr>, w1)
               else fetchMovies refetch s1 w1)"



section \<open>Notions of the specification\<close>

text \<open>\<open>clamp(r, lo, hi)\<close>, and a string of \<open>n\<close> copies of one glyph.\<close>

definition clamp :: "int \<Rightarrow> int \<Rightarrow> int \<Rightarrow> int" where
  "clamp r lo hi = (if r < lo then lo else if hi < r then hi else r)"

definition glyphs :: "nat \<Rightarrow> string \<Rightarrow> string" where
  "glyphs n g = concat (replicate n g)"

text \<open>
  The clear-and-redirect path, seen from outside: both slots of the storage are empty
  and the router was sent to the Auth screen.
\<close>

definition logged_out :: "world \<Rightarrow> world \<Rightarrow> bool" where
  "logged_out w w' =
     (mp_sessionToken (localStorage w') = None \<and> mp_username (localStorage w') = None
      \<and> router w' = router w @ [Push ''/''])"

text \<open>The requests sent between two states of the browser.\<close>

definition sent :: "world \<Rightarrow> world \<Rightarrow> request list" where
  "sent w w' = drop (length (requests w)) (requests w')"

text \<open>
  Three calls of the interface table: \<open>GET /movies\<close>, \<open>DELETE /movies?id=<id>\<close> and
  the \<open>PUT /movies?id=<id>\<close> of a review, each with the bearer token.
\<close>

definition list_request :: "string \<Rightarrow> request" where
  "list_request token =
     \<lparr>req_method = GET, req_path = ''/movies'', req_query = [],
      req_headers = [(''Authorization'', ''Bearer '' @ token)], req_body = None\<rparr>"

definition delete_request :: "string \<Rightarrow> string \<Rightarrow> request" where
  "delete_request token ident =
     \<lparr>req_method = DELETE, req_path = ''/movies'', req_query = [(''id'', ident)],
      req_headers = [(''Authorization'', ''Bearer '' @ token)], req_body = None\<rparr>"

definition review_request :: "string \<Rightarrow> string \<Rightarrow> rat option \<Rightarrow> string \<Rightarrow> request" where
  "review_request token ident stars text =
     \<lparr>req_method = PUT, req_path = ''/movies'', req_query = [(''id'', ident)],
      req_headers = [(''Content-Type'', ''application/json''),
                     (''Authorization'', ''Bearer '' @ token)],
      req_body = Some (JObj [(''status'', JStr ''HAVE_WATCHED''),
                             (''rating'', case stars of None \<Rightarrow> JNull | Some n \<Rightarrow> JNum n),
                             (''review'', if text = [] then JNull else JStr text)])\<rparr>"

text \<open>A rating input that is not numeric, or outside \<open>[1,5]\<close>.\<close>

definition rating_rejected :: "jsnum \<Rightarrow> bool" where
  "rating_rejected parsed =
     (case parsed of
        NaN \<Rightarrow> True
      | NegInfinity \<Rightarrow> True
      | PosInfinity \<Rightarrow> True
      | Finite x \<Rightarrow> x < 1 \<or> 5 < x)"





text \<open>
  What is assumed of the runtime's \<open>toLowerCase\<close>: it never empties a string, and on
  ASCII text it turns each of the letters A to Z into its small letter and keeps every
  other character.
\<close>

definition ascii :: "string \<Rightarrow> bool" where
  "ascii s = list_all (\<lambda>c. (of_char c :: nat) < 128) s"

definition lower_char :: "char \<Rightarrow> char" where
  "lower_char c =
     (let n = (of_char c :: nat)
      in if of_char CHR ''A'' \<le> n \<and> n \<le> of_char CHR ''Z'' then char_of (n + 32) else c)"

definition runtime_lower :: "(string \<Rightarrow> string) \<Rightarrow> bool" where
  "runtime_lower toLowerCase =
     (\<forall>s. (toLowerCase s = [] \<longleftrightarrow> s = []) \<and> (ascii s \<longrightarrow> toLowerCase s = map lower_char s))"





section \<open>Example data\<close>

text \<open>
  The rating summary of the specification's example. Its average is \<open>4.3\<close> as
  \<open>JSON.parse\<close> reads it: the nearest double, \<open>4841369599423283 / 2^50\<close>.
\<close>

definition inception_summary :: RatingSummary where
  "inception_summary =
     \<lparr>rs_title = ''Inception'', averageRating = 4841369599423283 / 2 ^ 50,
      roundedRating = 4, ratingCount = 10\<rparr>"

definition unrated_summary :: RatingSummary where
  "unrated_summary =
     \<lparr>rs_title = ''Inception'', averageRating = 0, roundedRating = 1, ratingCount = 0\<rparr>"

definition negative_count_summary :: RatingSummary where
  "negative_count_summary =
     \<lparr>rs_title = ''Inception'', averageRating = 4, roundedRating = 4, ratingCount = - 1\<rparr>"

text \<open>The Discovery screen of a visitor with no session, after the ratings arrived.\<close>

definition discover_with :: "RatingSummary list \<Rightarrow> discover_state" where
  "discover_with rs =
     \<lparr>sessionToken = None, currentUser = None, error = None, busyId = None, ratings = rs\<rparr>"

text \<open>A browser with no session, and the browser and the screens of a user who logged in.\<close>

definition empty_world :: world where
  "empty_world =
     \<lparr>localStorage = \<lparr>mp_sessionToken = None, mp_username = None\<rparr>,
      router = [], requests = [], alerts = []\<rparr>"

definition ann_world :: world where
  "ann_world =
     \<lparr>localStorage = \<lparr>mp_sessionToken = Some ''t0k3n'', mp_username = Some ''ann''\<rparr>,
      router = [], requests = [], alerts = []\<rparr>"

definition ann_discover :: discover_state where
  "ann_discover =
     \<lparr>sessionToken = Some ''t0k3n'', currentUser = Some ''ann'', error = None,
      busyId = None, ratings = []\<rparr>"

definition ann_account :: account_state where
  "ann_account =
     \<lparr>sessionToken = Some ''t0k3n'', currentUser = Some ''ann'',
      movies = [], loadingMovies = False, moviesError = None, filter_choice = FILTER_ALL,
      title = ''Heat'', status = HAVE_WATCHED, review = [], rating = Some 4, posterUrl = [],
      searchQuery = []\<rparr>"


definition seen_heat :: Movie where
  "seen_heat = \<lparr>m_id = ''m-1'', m_title = ''Heat'', m_status = ''HAVE_WATCHED'',
                 m_review = Some ''good'', m_rating = Some 3, m_imageUrl = None\<rparr>"



definition viewing :: "Movie list \<Rightarrow> Filter \<Rightarrow> string \<Rightarrow> account_state" where
  "viewing ms f query =
     \<lparr>sessionToken = Some ''t0k3n'', currentUser = Some ''ann'',
      movies = ms, loadingMovies = False, moviesError = None, filter_choice = f,
      title = [], status = PLAN_TO_WATCH, review = [], rating = None, posterUrl = [],
      searchQuery = query\<rparr>"

text \<open>The Auth form filled in for a login, and the same with a blank username.\<close>

definition ann_login :: home_state where
  "ann_login =
     \<lparr>authMode = login, username = '' ann '', password = ''s3cret'', authLoading = False,
      authError = None, infoMessage = None\<rparr>"

definition blank_login :: home_state where
  "blank_login =
     \<lparr>authMode = login, username = ''   '', password = ''s3cret'', authLoading = False,
      authError = None, infoMessage = None\<rparr>"


text \<open>
  A conversion that stands for the runtime's \<open>String\<close> in the closed examples. It is
  exact on strings, booleans, \<open>null\<close>, integers below \<open>10^21\<close> and objects; the
  examples never reach it.
\<close>

definition String_scalar :: "json \<Rightarrow> string" where
  "String_scalar v =
     (case v of
        JStr s \<Rightarrow> s
      | JBool b \<Rightarrow> if b then ''true'' else ''false''
      | JNull \<Rightarrow> ''null''
      | JNum n \<Rightarrow> show_int \<lfloor>n\<rfloor>
      | JArr xs \<Rightarrow> []
      | JObj kvs \<Rightarrow> ''[object Object]'')"

text \<open>
  A conversion that stands for the runtime's \<open>Number\<close> in the closed examples: a string
  of decimal digits is read as that integer, every other string as \<open>NaN\<close>. \<open>Number\<close>
  agrees with it on the strings the examples use. The theorems on the handlers hold for
  every conversion and do not mention this one.
\<close>

definition Number_digits :: "string \<Rightarrow> jsnum" where
  "Number_digits s =
     (if s \<noteq> [] \<and> list_all (\<lambda>c. c \<in> set ''0123456789'') s
      then Finite (of_nat (foldl (\<lambda>n c. 10 * n + (of_char c - 48)) 0 s))
      else NaN)"

section \<open>Lemmas on the built-ins\<close>

lemma repeat_nat_concat: "repeat_nat s n = concat (replicate n s)"
  by (induction n) simp_all

lemma clamp_max_min: "max 1 (min 5 r) = clamp r 1 5"
  by (simp add: clamp_def)

lemma clamp_bounds: "1 \<le> clamp r 1 5 \<and> clamp r 1 5 \<le> 5"
  by (simp add: clamp_def)

lemma find_first:
  assumes "xs = pre @ m # post" "\<forall>x\<in>set pre. \<not> P x" "P m"
  shows "find P xs = Some m"
  using assms by (induction pre arbitrary: xs) auto

lemma find_Some_split:
  assumes "find P xs = Some m"
  shows "P m \<and> (\<exists>pre post. xs = pre @ m # post \<and> (\<forall>x\<in>set pre. \<not> P x))"
  using assms
proof (induction xs)
  case Nil
  then show ?case by simp
next
  case (Cons x xs)
  show ?case
  proof (cases "P x")
    case True
    with Cons.prems have "x = m" by simp
    with True show ?thesis by (intro conjI exI [of _ "[]"] exI [of _ xs]) simp_all
  next
    case False
    with Cons.prems have "find P xs = Some m" by simp
    with Cons.IH obtain pre post where "P m" "xs = pre @ m # post" "\<forall>x\<in>set pre. \<not> P x"
      by blast
    with False show ?thesis
      by (intro conjI exI [of _ "x # pre"] exI [of _ post]) simp_all
  qed
qed

section \<open>The star string of the Discovery screen\<close>

lemma toFixed1_inception: "toFixed1 (averageRating inception_summary) = Some ''4.3''"
  unfolding inception_summary_def by (simp, code_simp)

lemma show_number_10: "show_number 10 = Some ''10''"
  by code_simp

lemma label_inception: "ratingLabel inception_summary = Some ''4.3/5 from 10 ratings (global)''"
  using toFixed1_inception by (simp add: ratingLabel_def show_number_10 inception_summary_def)

lemma four_of_five:
  "glyphs (nat (clamp 4 1 5)) star_full @ glyphs (nat (5 - clamp 4 1 5)) star_empty
     = star_full @ star_full @ star_full @ star_full @ star_empty"
  by (simp add: clamp_def glyphs_def numeral_eq_Suc)

lemma renderStars_glyphs:
  "renderStars r =
     Inr (glyphs (nat (clamp r 1 5)) star_full @ glyphs (nat (5 - clamp r 1 5)) star_empty)"
proof -
  define k where "k = clamp r 1 5"
  have k: "1 \<le> k" "k \<le> 5"
    using clamp_bounds [of r] by (simp_all add: k_def)
  have "renderStars r =
          (case repeat star_full k of
             Inl e \<Rightarrow> Inl e
           | Inr full \<Rightarrow>
               (case repeat star_empty (5 - k) of
                  Inl e \<Rightarrow> Inl e
                | Inr empties \<Rightarrow> Inr (full @ empties)))"
    unfolding renderStars_def Let_def clamp_max_min k_def ..
  also have "\<dots> = Inr (repeat_nat star_full (nat k) @ repeat_nat star_empty (nat (5 - k)))"
    using k by (simp add: repeat_def)
  finally show ?thesis
    by (simp add: repeat_nat_concat glyphs_def k_def)
qed

text \<open>
  C7. For every integer rounded rating \<open>r\<close>, \<open>renderStars\<close> of the Discovery screen
  returns (it never throws) the string of exactly \<open>clamp(r,1,5)\<close> filled stars followed
  by exactly \<open>5 - clamp(r,1,5)\<close> empty stars. With the ratings response
  \<open>[{title: "Inception", averageRating: 4.3, roundedRating: 4, ratingCount: 10}]\<close> the
  card of Inception carries four filled stars and one empty star with the label
  \<open>4.3/5 from 10 ratings (global)\<close>, and the other three cards carry no badge.
\<close>

theorem renderStars_clamped:
  "renderStars r =
     Inr (glyphs (nat (clamp r 1 5)) star_full @ glyphs (nat (5 - clamp r 1 5)) star_empty)
   \<and> renderStars (roundedRating inception_summary) =
       Inr (star_full @ star_full @ star_full @ star_full @ star_empty)
   \<and> map card_badge (DiscoverPage_render (discover_with [inception_summary])) =
       [Some \<lparr>badge_stars = Inr (star_full @ star_full @ star_full @ star_full @ star_empty),
              badge_label = Some ''4.3/5 from 10 ratings (global)''\<rparr>,
        None, None, None]"
proof (intro conjI)
  show "renderStars r =
     Inr (glyphs (nat (clamp r 1 5)) star_full @ glyphs (nat (5 - clamp r 1 5)) star_empty)"
    by (rule renderStars_glyphs)
  have four: "renderStars 4 = Inr (star_full @ star_full @ star_full @ star_full @ star_empty)"
    using renderStars_glyphs [of 4] by (simp only: four_of_five)
  then show "renderStars (roundedRating inception_summary) =
       Inr (star_full @ star_full @ star_full @ star_full @ star_empty)"
    by (simp add: inception_summary_def)
  have found: "getGlobalSummary (discover_with [inception_summary]) ''Inception''
                 = Some inception_summary"
    by (simp add: getGlobalSummary_def discover_with_def inception_summary_def)
  have others: "getGlobalSummary (discover_with [inception_summary]) ''The Dark Knight'' = None"
    "getGlobalSummary (discover_with [inception_summary]) ''La La Land'' = None"
    "getGlobalSummary (discover_with [inception_summary]) ''Spirited Away'' = None"
    by (simp_all add: getGlobalSummary_def discover_with_def inception_summary_def)
  have rounded: "roundedRating inception_summary = 4"
    by (simp add: inception_summary_def)
  show "map card_badge (DiscoverPage_render (discover_with [inception_summary])) =
       [Some \<lparr>badge_stars = Inr (star_full @ star_full @ star_full @ star_full @ star_empty),
              badge_label = Some ''4.3/5 from 10 ratings (global)''\<rparr>,
        None, None, None]"
    by (simp add: DiscoverPage_render_def DISCOVER_MOVIES_def render_card_def Let_def
          found others rounded four label_inception)
qed

theorem renderStars_clamped_witness:
  "renderStars 9 = Inr (star_full @ star_full @ star_full @ star_full @ star_full)
   \<and> renderStars (- 3) = Inr (star_full @ star_empty @ star_empty @ star_empty @ star_empty)
   \<and> renderStars 2 = Inr (star_full @ star_full @ star_empty @ star_empty @ star_empty)"
  using renderStars_clamped [of 9] renderStars_clamped [of "- 3"] renderStars_clamped [of 2]
  by (simp add: clamp_def glyphs_def numeral_eq_Suc)

section \<open>The lookup of the global summary\<close>

text \<open>
  C8, as the claim states it, fails where it says that a summary is returned only when
  a match has \<open>ratingCount > 0\<close>: the lookup tests \<open>ratingCount === 0\<close> and nothing
  else, so a summary whose count is negative is returned and its badge is rendered.
\<close>

theorem getGlobalSummary_negative_count_counterexample:
  "ratings (discover_with [negative_count_summary]) = [negative_count_summary]
   \<and> getGlobalSummary (discover_with [negative_count_summary]) ''Inception''
       = Some negative_count_summary
   \<and> \<not> 0 < ratingCount negative_count_summary
   \<and> map (\<lambda>c. card_badge c = None)
        (DiscoverPage_render (discover_with [negative_count_summary]))
       = [False, True, True, True]"
  by (simp add: discover_with_def negative_count_summary_def getGlobalSummary_def
        DiscoverPage_render_def render_card_def DISCOVER_MOVIES_def)

text \<open>
  C8, amended. The lookup yields no summary (and the card carries no badge) whenever no
  summary has exactly the entry's title, or the first summary with that title has
  \<open>ratingCount\<close> equal to 0. A summary that is returned is the first one with exactly that
  title, and its \<open>ratingCount\<close> is not 0 (the sign is not tested).
\<close>

theorem getGlobalSummary_first_match:
  "((\<forall>r\<in>set (ratings s). rs_title r \<noteq> t) \<longrightarrow> getGlobalSummary s t = None)
   \<and> (ratings s = pre @ m # post \<and> (\<forall>r\<in>set pre. rs_title r \<noteq> t) \<and> rs_title m = t
          \<and> ratingCount m = 0
        \<longrightarrow> getGlobalSummary s t = None)
   \<and> (getGlobalSummary s t = Some g
        \<longrightarrow> rs_title g = t \<and> ratingCount g \<noteq> 0
            \<and> (\<exists>pre post. ratings s = pre @ g # post \<and> (\<forall>r\<in>set pre. rs_title r \<noteq> t)))
   \<and> (getGlobalSummary s (dm_title movie) = None \<longrightarrow> card_badge (render_card s movie) = None)"
proof (intro conjI impI)
  assume "\<forall>r\<in>set (ratings s). rs_title r \<noteq> t"
  then have "find (\<lambda>r. rs_title r = t) (ratings s) = None"
    by (simp add: find_None_iff)
  then show "getGlobalSummary s t = None"
    by (simp add: getGlobalSummary_def)
next
  assume a: "ratings s = pre @ m # post \<and> (\<forall>r\<in>set pre. rs_title r \<noteq> t) \<and> rs_title m = t
          \<and> ratingCount m = 0"
  then have "find (\<lambda>r. rs_title r = t) (ratings s) = Some m"
    by (intro find_first [of _ pre m post]) simp_all
  with a show "getGlobalSummary s t = None"
    by (simp add: getGlobalSummary_def)
next
  assume g: "getGlobalSummary s t = Some g"
  then have f: "find (\<lambda>r. rs_title r = t) (ratings s) = Some g" and c: "ratingCount g \<noteq> 0"
    by (auto simp: getGlobalSummary_def split: option.splits if_splits)
  from find_Some_split [OF f] c
  show "rs_title g = t" "ratingCount g \<noteq> 0"
    "\<exists>pre post. ratings s = pre @ g # post \<and> (\<forall>r\<in>set pre. rs_title r \<noteq> t)"
    by auto
next
  assume "getGlobalSummary s (dm_title movie) = None"
  then show "card_badge (render_card s movie) = None"
    by (simp add: render_card_def Let_def)
qed

theorem getGlobalSummary_first_match_witness:
  "getGlobalSummary (discover_with []) ''Inception'' = None
   \<and> getGlobalSummary (discover_with [unrated_summary, inception_summary]) ''Inception'' = None
   \<and> rs_title inception_summary = ''Inception'' \<and> ratingCount inception_summary \<noteq> 0
   \<and> card_badge (render_card (discover_with [unrated_summary, inception_summary])
                  (hd DISCOVER_MOVIES)) = None"
proof -
  let ?two = "discover_with [unrated_summary, inception_summary]"
  have h1: "\<forall>r\<in>set (ratings (discover_with [])). rs_title r \<noteq> ''Inception''"
    by (simp add: discover_with_def)
  have h2: "ratings ?two = [] @ unrated_summary # [inception_summary]
     \<and> (\<forall>r\<in>set []. rs_title r \<noteq> ''Inception'') \<and> rs_title unrated_summary = ''Inception''
     \<and> ratingCount unrated_summary = 0"
    by (simp add: discover_with_def unrated_summary_def)
  have h3: "getGlobalSummary (discover_with [inception_summary]) ''Inception''
              = Some inception_summary"
    by (simp add: getGlobalSummary_def discover_with_def inception_summary_def)
  have t: "dm_title (hd DISCOVER_MOVIES) = ''Inception''"
    by (simp add: DISCOVER_MOVIES_def)
  have c1: "getGlobalSummary (discover_with []) ''Inception'' = None"
    by (rule getGlobalSummary_first_match [THEN conjunct1, THEN mp, OF h1])
  have c2: "getGlobalSummary ?two ''Inception'' = None"
    by (rule getGlobalSummary_first_match [THEN conjunct2, THEN conjunct1, THEN mp, OF h2])
  have c3: "rs_title inception_summary = ''Inception'' \<and> ratingCount inception_summary \<noteq> 0"
    using getGlobalSummary_first_match
            [THEN conjunct2, THEN conjunct2, THEN conjunct1, THEN mp, OF h3]
    by simp
  have h4: "getGlobalSummary ?two (dm_title (hd DISCOVER_MOVIES)) = None"
    using c2 by (simp only: t)
  have c4: "card_badge (render_card ?two (hd DISCOVER_MOVIES)) = None"
    by (rule getGlobalSummary_first_match
               [THEN conjunct2, THEN conjunct2, THEN conjunct2, THEN mp, OF h4])
  from c1 c2 c3 c4 show ?thesis by simp
qed

section \<open>A response with status 401\<close>










text \<open>
  The same holds when the 401 answers the list refetch that follows a successful
  mutation.
\<close>

lemma refetch_401:
  assumes "truthy_str (sessionToken s)" "ok code"
  shows "logged_out w (snd (updateMovieStatus i st (Response code b) (Response 401 b') s w))"
    and "logged_out w
           (snd (account_markWatched Number movie ri rv (Response code b) (Response 401 b') s w))"
    and "logged_out w (snd (deleteMovie i True (Response code b) (Response 401 b') s w))"
    and "trim (title s) \<noteq> [] \<Longrightarrow> status s = HAVE_WATCHED \<longrightarrow> truthy_num (rating s) \<Longrightarrow>
           logged_out w (snd (handleAddMovie (Response code b) (Response 401 b') s w))"
proof -
  from assms(2) have c: "code \<noteq> 401"
    by (auto simp add: ok_def)
  from assms c
  show "logged_out w (snd (updateMovieStatus i st (Response code b) (Response 401 b') s w))"
    by (simp add: updateMovieStatus_def Let_def fetchMovies_def handleLogout_def logged_out_def
          navigate_def send_def)
  from assms c
  show "logged_out w
          (snd (account_markWatched Number movie ri rv (Response code b) (Response 401 b') s w))"
    by (simp add: account_markWatched_def Let_def fetchMovies_def handleLogout_def logged_out_def
          navigate_def send_def)
  from assms c
  show "logged_out w (snd (deleteMovie i True (Response code b) (Response 401 b') s w))"
    by (simp add: deleteMovie_def Let_def fetchMovies_def handleLogout_def logged_out_def
          navigate_def send_def)
  assume "trim (title s) \<noteq> []" "status s = HAVE_WATCHED \<longrightarrow> truthy_num (rating s)"
  with assms c
  show "logged_out w (snd (handleAddMovie (Response code b) (Response 401 b') s w))"
    by (auto simp add: handleAddMovie_def Let_def fetchMovies_def handleLogout_def logged_out_def
          navigate_def send_def)
qed




section \<open>The busy indicator of the Discovery screen\<close>

text \<open>
  C10. After add-to-list or mark-watched of the Discovery screen, \<open>busyId\<close> is \<open>null\<close>,
  whatever came back for the request: a success, a 401, any other status, or a rejected
  \<open>fetch\<close>. The hypothesis holds in every state the screen reaches: \<open>busyId\<close> is set
  only by an action that holds a session token, and the token of the state is never
  taken back. (Without a token the action returns before it sends anything and leaves
  \<open>busyId\<close> as it is, which is \<open>null\<close> then.)
\<close>

theorem busyId_reset:
  assumes "truthy_str (sessionToken s) \<or> busyId s = None"
  shows "busyId (fst (addToList entry res s w)) = None
     \<and> busyId (fst (discover_markWatched Number entry ratingInput reviewInput res' s w)) = None"
proof (cases "truthy_str (sessionToken s)")
  case True
  then show ?thesis
    by (simp add: addToList_def discover_markWatched_def Let_def)
next
  case False
  with assms have "busyId s = None" by simp
  with False show ?thesis
    by (simp add: addToList_def discover_markWatched_def)
qed

theorem busyId_reset_witness:
  "busyId (fst (addToList (hd DISCOVER_MOVIES) (Rejected (Some ''Failed to fetch'') :: unit reply)
                  (ann_discover\<lparr>busyId := Some ''disc-2''\<rparr>) ann_world)) = None
   \<and> busyId (fst (discover_markWatched Number_digits (hd DISCOVER_MOVIES) (Some ''9'') (Some ''fine'')
                  (Response 500 ()) (ann_discover\<lparr>busyId := Some ''disc-2''\<rparr>) ann_world)) = None"
proof -
  have h: "truthy_str (sessionToken (ann_discover\<lparr>busyId := Some ''disc-2''\<rparr>))
           \<or> busyId (ann_discover\<lparr>busyId := Some ''disc-2''\<rparr>) = None"
    by (simp add: ann_discover_def truthy_str_def)
  show ?thesis
    by (rule busyId_reset [OF h])
qed

text \<open>The hypothesis of the theorem holds in every state the screen reaches.\<close>

lemma reachable_busy_or_session:
  assumes "discover_reachable s"
  shows "truthy_str (sessionToken s) \<or> busyId s = None"
  using assms
proof (induction rule: discover_reachable.induct)
  case initial
  then show ?case by simp
next
  case (guarded s w)
  then show ?case
    by (auto simp add: discover_auth_guard_def Let_def)
next
  case (rated s res w)
  then show ?case
    by (cases res) (auto simp add: fetchRatings_def Let_def split: sum.splits)
next
  case (added s entry res' w)
  then show ?case
    by (auto simp add: addToList_def Let_def)
next
  case (marked s Number entry ratingInput reviewInput res' w)
  then show ?case
    by (auto simp add: discover_markWatched_def Let_def)
qed

text \<open>
  Without a session token the action sends nothing and does not touch \<open>busyId\<close>.
\<close>

lemma busyId_kept_without_session:
  assumes "\<not> truthy_str (sessionToken s)"
  shows "busyId (fst (addToList entry res s w)) = busyId s
     \<and> requests (snd (addToList entry res s w)) = requests w
     \<and> busyId (fst (discover_markWatched Number entry ratingInput reviewInput res' s w)) = busyId s
     \<and> requests (snd (discover_markWatched Number entry ratingInput reviewInput res' s w))
         = requests w"
  using assms by (simp add: addToList_def discover_markWatched_def navigate_def)

section \<open>Mounting the Discovery screen\<close>

text \<open>
  C3, as the claim states it, fails: the Discovery screen has an auth guard, and mounted
  in a browser with no session it sends the router to the Auth screen.
\<close>

theorem discover_guard_redirects_counterexample:
  "mp_sessionToken (localStorage empty_world) = None
   \<and> snd (discover_auth_guard (discover_with []) empty_world)
       = empty_world\<lparr>router := [Replace ''/'']\<rparr>
   \<and> router (snd (discover_auth_guard (discover_with []) empty_world)) \<noteq> router empty_world"
  by (simp add: discover_auth_guard_def empty_world_def navigate_def truthy_str_def)

text \<open>
  C3, amended. What the Discovery screen renders is the fixed catalog, whatever its state
  (without a session token both buttons of every card are disabled). Its auth guard, run
  on mount, sends the router to the Auth screen when either slot of the storage is
  missing or empty, and leaves the state as it was; with both slots filled it stores them
  in the state and does not navigate.
\<close>

theorem discover_catalog_and_guard:
  "map card_title (DiscoverPage_render s) = map dm_title DISCOVER_MOVIES
   \<and> (\<not> truthy_str (sessionToken s) \<longrightarrow>
        map add_disabled (DiscoverPage_render s) = [True, True, True, True]
        \<and> map mark_disabled (DiscoverPage_render s) = [True, True, True, True])
   \<and> (\<not> truthy_str (mp_sessionToken (localStorage w)) \<or> \<not> truthy_str (mp_username (localStorage w))
        \<longrightarrow> discover_auth_guard s w = (s, w\<lparr>router := router w @ [Replace ''/'']\<rparr>))
   \<and> (truthy_str (mp_sessionToken (localStorage w)) \<and> truthy_str (mp_username (localStorage w))
        \<longrightarrow> discover_auth_guard s w
              = (s\<lparr>sessionToken := mp_sessionToken (localStorage w),
                    currentUser := mp_username (localStorage w)\<rparr>, w))"
proof (intro conjI impI)
  show "map card_title (DiscoverPage_render s) = map dm_title DISCOVER_MOVIES"
    by (simp add: DiscoverPage_render_def render_card_def Let_def)
next
  assume "\<not> truthy_str (sessionToken s)"
  then show "map add_disabled (DiscoverPage_render s) = [True, True, True, True]"
    "map mark_disabled (DiscoverPage_render s) = [True, True, True, True]"
    by (simp_all add: DiscoverPage_render_def render_card_def Let_def DISCOVER_MOVIES_def)
next
  assume "\<not> truthy_str (mp_sessionToken (localStorage w))
            \<or> \<not> truthy_str (mp_username (localStorage w))"
  then show "discover_auth_guard s w = (s, w\<lparr>router := router w @ [Replace ''/'']\<rparr>)"
    by (auto simp add: discover_auth_guard_def navigate_def Let_def)
next
  assume "truthy_str (mp_sessionToken (localStorage w))
            \<and> truthy_str (mp_username (localStorage w))"
  then show "discover_auth_guard s w
              = (s\<lparr>sessionToken := mp_sessionToken (localStorage w),
                    currentUser := mp_username (localStorage w)\<rparr>, w)"
    by (simp add: discover_auth_guard_def Let_def)
qed

theorem discover_catalog_and_guard_witness:
  "map card_title (DiscoverPage_render (discover_with []))
     = [''Inception'', ''The Dark Knight'', ''La La Land'', ''Spirited Away'']
   \<and> map add_disabled (DiscoverPage_render (discover_with [])) = [True, True, True, True]
   \<and> discover_auth_guard (discover_with []) empty_world
       = (discover_with [], empty_world\<lparr>router := router empty_world @ [Replace ''/'']\<rparr>)
   \<and> discover_auth_guard (discover_with []) ann_world
       = ((discover_with [])\<lparr>sessionToken := mp_sessionToken (localStorage ann_world),
                              currentUser := mp_username (localStorage ann_world)\<rparr>, ann_world)"
proof -
  have h1: "\<not> truthy_str (sessionToken (discover_with []))"
    by (simp add: discover_with_def truthy_str_def)
  have h2: "\<not> truthy_str (mp_sessionToken (localStorage empty_world))
              \<or> \<not> truthy_str (mp_username (localStorage empty_world))"
    by (simp add: empty_world_def truthy_str_def)
  have h3: "truthy_str (mp_sessionToken (localStorage ann_world))
              \<and> truthy_str (mp_username (localStorage ann_world))"
    by (simp add: ann_world_def truthy_str_def)
  have titles: "map dm_title DISCOVER_MOVIES
                  = [''Inception'', ''The Dark Knight'', ''La La Land'', ''Spirited Away'']"
    by (simp add: DISCOVER_MOVIES_def)
  note T = discover_catalog_and_guard [where s = "discover_with []"]
  from T [where w = empty_world] T [where w = ann_world] h1 h2 h3 titles
  show ?thesis by simp
qed

section \<open>Lemmas on the list fetch\<close>

lemma bearer_Some: "bearer (Some token) = (''Authorization'', ''Bearer '' @ token)"
  by (simp add: bearer_def)

lemma fetchMovies_requests:
  assumes "sessionToken s = Some token" "token \<noteq> []"
  shows "requests (snd (fetchMovies res s w)) = requests w @ [list_request token]"
  using assms
  by (cases res)
     (auto simp add: fetchMovies_def Let_def send_def handleLogout_def navigate_def
        list_request_def bearer_Some truthy_str_def split: sum.splits)

lemma fetchMovies_alerts: "alerts (snd (fetchMovies res s w)) = alerts w"
  by (cases res)
     (auto simp add: fetchMovies_def Let_def send_def handleLogout_def navigate_def
        split: sum.splits)

section \<open>Deleting a record\<close>

lemma show_nat_500: "show_nat 500 = ''500''"
  by code_simp

text \<open>
  C9. With a session, \<open>deleteMovie\<close> sends its \<open>DELETE\<close> only when the confirmation prompt
  was accepted. Declined, it changes nothing: no request, the same state, the same
  browser. Confirmed, a status in 200..299 or the status 204 is a success: the handler
  goes on as the list fetch does, so the requests sent are the \<open>DELETE\<close> and then the
  \<open>GET\<close> of the whole list. Any other status is a failure: the \<open>DELETE\<close> is the only
  request, the cached list is kept, and (but for 401, which logs out) the inline error is
  \<open>HTTP <status>\<close>.
\<close>

theorem delete_after_confirmation:
  assumes "sessionToken a = Some token" "token \<noteq> []"
  shows
    "deleteMovie i False res refetch a w = (a, w)
     \<and> (ok code \<or> code = 204 \<longrightarrow>
          deleteMovie i True (Response code b) refetch a w
            = fetchMovies refetch (a\<lparr>moviesError := None\<rparr>) (send (delete_request token i) w)
          \<and> sent w (snd (deleteMovie i True (Response code b) refetch a w))
              = [delete_request token i, list_request token])
     \<and> (\<not> ok code \<and> code \<noteq> 204 \<longrightarrow>
          sent w (snd (deleteMovie i True (Response code b) refetch a w))
            = [delete_request token i]
          \<and> movies (fst (deleteMovie i True (Response code b) refetch a w)) = movies a
          \<and> (code \<noteq> 401 \<longrightarrow>
                moviesError (fst (deleteMovie i True (Response code b) refetch a w))
                  = Some (''HTTP '' @ show_nat code)))"
proof (intro conjI impI)
  have t: "truthy_str (sessionToken a)"
    using assms by (simp add: truthy_str_def)
  from t show "deleteMovie i False res refetch a w = (a, w)"
    by (simp add: deleteMovie_def)
  {
    assume h: "ok code \<or> code = 204"
    then have c: "code \<noteq> 401" by (auto simp add: ok_def)
    from h c t assms(1)
    show d: "deleteMovie i True (Response code b) refetch a w
            = fetchMovies refetch (a\<lparr>moviesError := None\<rparr>) (send (delete_request token i) w)"
      by (auto simp add: deleteMovie_def Let_def delete_request_def bearer_Some)
    from assms have "sessionToken (a\<lparr>moviesError := None\<rparr>) = Some token" by simp
    from fetchMovies_requests [OF this assms(2)]
    show "sent w (snd (deleteMovie i True (Response code b) refetch a w))
              = [delete_request token i, list_request token]"
      by (simp add: d send_def sent_def)
  }
  {
    assume h: "\<not> ok code \<and> code \<noteq> 204"
    with t assms(1)
    show "sent w (snd (deleteMovie i True (Response code b) refetch a w))
            = [delete_request token i]"
      "movies (fst (deleteMovie i True (Response code b) refetch a w)) = movies a"
      by (auto simp add: deleteMovie_def Let_def delete_request_def bearer_Some send_def sent_def
            handleLogout_def navigate_def)
    assume "code \<noteq> 401"
    with h t show "moviesError (fst (deleteMovie i True (Response code b) refetch a w))
                  = Some (''HTTP '' @ show_nat code)"
      by (simp add: deleteMovie_def Let_def message_or_def http_error_def)
  }
qed

theorem delete_after_confirmation_witness:
  "deleteMovie ''m-1'' False (Response 200 ()) (Response 200 (Inr [])) (viewing [seen_heat] FILTER_ALL [])
       ann_world
     = (viewing [seen_heat] FILTER_ALL [], ann_world)
   \<and> sent ann_world
        (snd (deleteMovie ''m-1'' True (Response 204 ()) (Response 200 (Inr []))
                (viewing [seen_heat] FILTER_ALL []) ann_world))
       = [delete_request ''t0k3n'' ''m-1'', list_request ''t0k3n'']
   \<and> movies (fst (deleteMovie ''m-1'' True (Response 204 ()) (Response 200 (Inr []))
                (viewing [seen_heat] FILTER_ALL []) ann_world)) = []
   \<and> sent ann_world
        (snd (deleteMovie ''m-1'' True (Response 500 ()) (Response 200 (Inr []))
                (viewing [seen_heat] FILTER_ALL []) ann_world))
       = [delete_request ''t0k3n'' ''m-1'']
   \<and> movies (fst (deleteMovie ''m-1'' True (Response 500 ()) (Response 200 (Inr []))
                (viewing [seen_heat] FILTER_ALL []) ann_world)) = [seen_heat]
   \<and> moviesError (fst (deleteMovie ''m-1'' True (Response 500 ()) (Response 200 (Inr []))
                (viewing [seen_heat] FILTER_ALL []) ann_world)) = Some ''HTTP 500''"
proof -
  let ?a = "viewing [seen_heat] FILTER_ALL []"
  have h1: "sessionToken ?a = Some ''t0k3n''" and h2: "''t0k3n'' \<noteq> []"
    by (simp_all add: viewing_def)
  have ok204: "ok 204 \<or> (204::nat) = 204" and no500: "\<not> ok 500 \<and> (500::nat) \<noteq> 204"
    and ne401: "(500::nat) \<noteq> 401"
    by (simp_all add: ok_def)
  note T = delete_after_confirmation
    [OF h1 h2, where i = "''m-1''" and res = "Response 200 ()" and b = "()"
       and refetch = "Response 200 (Inr [])" and w = ann_world]
  have c1: "deleteMovie ''m-1'' False (Response 200 ()) (Response 200 (Inr [])) ?a ann_world
              = (?a, ann_world)"
    by (rule T [THEN conjunct1])
  note S = T [where code = 204, THEN conjunct2, THEN conjunct1, THEN mp, OF ok204]
  have c2: "sent ann_world
              (snd (deleteMovie ''m-1'' True (Response 204 ()) (Response 200 (Inr [])) ?a ann_world))
            = [delete_request ''t0k3n'' ''m-1'', list_request ''t0k3n'']"
    by (rule S [THEN conjunct2])
  have refetched: "movies (fst (fetchMovies (Response 200 (Inr [])) (?a\<lparr>moviesError := None\<rparr>)
                     (send (delete_request ''t0k3n'' ''m-1'') ann_world))) = []"
    by (simp add: fetchMovies_def Let_def viewing_def truthy_str_def ok_def)
  have c3: "movies (fst (deleteMovie ''m-1'' True (Response 204 ()) (Response 200 (Inr []))
                     ?a ann_world)) = []"
    unfolding S [THEN conjunct1] by (rule refetched)
  note F = T [where code = 500, THEN conjunct2, THEN conjunct2, THEN mp, OF no500]
  have c4: "sent ann_world
              (snd (deleteMovie ''m-1'' True (Response 500 ()) (Response 200 (Inr [])) ?a ann_world))
            = [delete_request ''t0k3n'' ''m-1'']"
    by (rule F [THEN conjunct1])
  have c5: "movies (fst (deleteMovie ''m-1'' True (Response 500 ()) (Response 200 (Inr []))
                     ?a ann_world)) = [seen_heat]"
    using F [THEN conjunct2, THEN conjunct1] by (simp add: viewing_def)
  have c6: "moviesError (fst (deleteMovie ''m-1'' True (Response 500 ()) (Response 200 (Inr []))
                     ?a ann_world)) = Some ''HTTP 500''"
    using F [THEN conjunct2, THEN conjunct2, THEN mp, OF ne401] by (simp add: show_nat_500)
  from c1 c2 c3 c4 c5 c6 show ?thesis
    by (intro conjI)
qed

text \<open>Declined or not asked, with or without a session: nothing is sent.\<close>

lemma delete_unconfirmed_sends_nothing:
  "requests (snd (deleteMovie i False res refetch a w)) = requests w"
  by (simp add: deleteMovie_def)

section \<open>Local validation\<close>

lemma trim_spaces: "trim ''   '' = []"
  by code_simp

text \<open>
  C6. A local validation failure sends no request and leaves the storage as it is.
  Submitting the Auth form with a username or a password that is blank after trimming
  changes nothing in the browser (no request, no navigation, the same storage) and shows
  \<open>Username and password are required.\<close> Submitting the create form of the Account
  screen with a title that is blank after trimming, or with the status \<open>HAVE_WATCHED\<close>
  and no rating, sends no request, leaves the storage, the router and the cached list as
  they are and, with a session, the whole state of the screen.
\<close>

theorem local_validation_sends_nothing:
  "(trim (username h) = [] \<or> trim (password h) = [] \<longrightarrow>
      snd (handleAuthSubmit String res h w) = w
      \<and> authError (fst (handleAuthSubmit String res h w))
          = Some (JStr ''Username and password are required.''))
   \<and> (trim (title a) = [] \<or> (status a = HAVE_WATCHED \<and> \<not> truthy_num (rating a)) \<longrightarrow>
        sent w (snd (handleAddMovie res' refetch a w)) = []
        \<and> localStorage (snd (handleAddMovie res' refetch a w)) = localStorage w
        \<and> router (snd (handleAddMovie res' refetch a w)) = router w
        \<and> movies (fst (handleAddMovie res' refetch a w)) = movies a
        \<and> (truthy_str (sessionToken a) \<longrightarrow> fst (handleAddMovie res' refetch a w) = a))"
proof (intro conjI impI)
  assume "trim (username h) = [] \<or> trim (password h) = []"
  then show "snd (handleAuthSubmit String res h w) = w"
    "authError (fst (handleAuthSubmit String res h w))
          = Some (JStr ''Username and password are required.'')"
    by (auto simp add: handleAuthSubmit_def Let_def)
next
  assume v: "trim (title a) = [] \<or> (status a = HAVE_WATCHED \<and> \<not> truthy_num (rating a))"
  then show "sent w (snd (handleAddMovie res' refetch a w)) = []"
    "localStorage (snd (handleAddMovie res' refetch a w)) = localStorage w"
    "router (snd (handleAddMovie res' refetch a w)) = router w"
    "movies (fst (handleAddMovie res' refetch a w)) = movies a"
    by (auto simp add: handleAddMovie_def alert_def sent_def)
  assume "truthy_str (sessionToken a)"
  with v show "fst (handleAddMovie res' refetch a w) = a"
    by (auto simp add: handleAddMovie_def)
qed

theorem local_validation_sends_nothing_witness:
  "snd (handleAuthSubmit String_scalar (Response 200 (Some (JObj [(''sessionToken'', JStr ''x'')])))
          blank_login empty_world) = empty_world
   \<and> authError (fst (handleAuthSubmit String_scalar
                       (Response 200 (Some (JObj [(''sessionToken'', JStr ''x'')])))
                       blank_login empty_world))
       = Some (JStr ''Username and password are required.'')
   \<and> sent ann_world
        (snd (handleAddMovie (Response 200 ()) (Response 200 (Inr []))
                (ann_account\<lparr>rating := None\<rparr>) ann_world)) = []
   \<and> fst (handleAddMovie (Response 200 ()) (Response 200 (Inr []))
            (ann_account\<lparr>rating := None\<rparr>) ann_world) = ann_account\<lparr>rating := None\<rparr>
   \<and> sent ann_world
        (snd (handleAddMovie (Response 200 ()) (Response 200 (Inr []))
                (ann_account\<lparr>title := ''   ''\<rparr>) ann_world)) = []"
proof -
  have h1: "trim (username blank_login) = [] \<or> trim (password blank_login) = []"
    by (simp add: blank_login_def trim_spaces)
  have h2: "trim (title (ann_account\<lparr>rating := None\<rparr>)) = []
            \<or> (status (ann_account\<lparr>rating := None\<rparr>) = HAVE_WATCHED
                \<and> \<not> truthy_num (rating (ann_account\<lparr>rating := None\<rparr>)))"
    by (simp add: ann_account_def truthy_num_def)
  have h3: "truthy_str (sessionToken (ann_account\<lparr>rating := None\<rparr>))"
    by (simp add: ann_account_def truthy_str_def)
  have h4: "trim (title (ann_account\<lparr>title := ''   ''\<rparr>)) = []
            \<or> (status (ann_account\<lparr>title := ''   ''\<rparr>) = HAVE_WATCHED
                \<and> \<not> truthy_num (rating (ann_account\<lparr>title := ''   ''\<rparr>)))"
    by (simp add: trim_spaces)
  note A = local_validation_sends_nothing
    [where h = blank_login and w = empty_world and String = String_scalar
       and res = "Response 200 (Some (JObj [(''sessionToken'', JStr ''x'')]))",
     THEN conjunct1, THEN mp, OF h1]
  note B = local_validation_sends_nothing
    [where a = "ann_account\<lparr>rating := None\<rparr>" and w = ann_world and res' = "Response 200 ()"
       and refetch = "Response 200 (Inr [])", THEN conjunct2, THEN mp, OF h2]
  note C = local_validation_sends_nothing
    [where a = "ann_account\<lparr>title := ''   ''\<rparr>" and w = ann_world and res' = "Response 200 ()"
       and refetch = "Response 200 (Inr [])", THEN conjunct2, THEN mp, OF h4]
  from A B C h3 show ?thesis
    by simp
qed

section \<open>A login answered without a token\<close>

lemma trim_ann: "trim '' ann '' = ''ann''"
  by code_simp

lemma trim_s3cret: "trim ''s3cret'' = ''s3cret''"
  by code_simp

text \<open>
  A login answered with a success status and a body that is an object (or any value other
  than \<open>null\<close>, or not JSON at all) without a \<open>sessionToken\<close>: nothing is stored, the
  router is not called, and the error is \<open>No session token returned from server.\<close>
\<close>

lemma login_without_token:
  assumes "authMode s = login" "trim (username s) \<noteq> []" "trim (password s) \<noteq> []" "ok code"
    and "read_property (case body of None \<Rightarrow> JObj [] | Some d \<Rightarrow> d) ''sessionToken''
           = Inr None"
  shows "localStorage (snd (handleAuthSubmit String (Response code body) s w)) = localStorage w
     \<and> router (snd (handleAuthSubmit String (Response code body) s w)) = router w
     \<and> authError (fst (handleAuthSubmit String (Response code body) s w))
         = Some (JStr ''No session token returned from server.'')"
  using assms
  by (cases body) (simp_all add: handleAuthSubmit_def Let_def send_def)

lemma login_without_token_example:
  "authError (fst (handleAuthSubmit String_scalar (Response 200 (Some (JObj [(''user'', JStr ''ann'')])))
                    ann_login empty_world))
     = Some (JStr ''No session token returned from server.'')
   \<and> localStorage (snd (handleAuthSubmit String_scalar
                          (Response 200 (Some (JObj [(''user'', JStr ''ann'')])))
                          ann_login empty_world)) = localStorage empty_world"
proof -
  have "authMode ann_login = login" "trim (username ann_login) \<noteq> []"
    "trim (password ann_login) \<noteq> []" "ok 200"
    "read_property (case Some (JObj [(''user'', JStr ''ann'')]) of None \<Rightarrow> JObj [] | Some d \<Rightarrow> d)
       ''sessionToken'' = Inr None"
    by (simp_all add: ann_login_def trim_ann trim_s3cret ok_def)
  from login_without_token [OF this, of String_scalar empty_world]
  show ?thesis by simp
qed

text \<open>
  C5. The handler reads \<open>data.sessionToken\<close> without the guard that its failure branch
  has (\<open>data?.error\<close>). A success whose body is the JSON value \<open>null\<close> lacks the token
  like any other, and nothing is stored and the router is not called; but the property
  access throws, and the error shown is the message of that \<open>TypeError\<close>, not
  \<open>No session token returned from server.\<close>
\<close>

theorem login_null_body:
  "authError (fst (handleAuthSubmit String_scalar (Response 200 (Some JNull)) ann_login empty_world))
     = Some (JStr (null_property_message ''sessionToken''))
   \<and> authError (fst (handleAuthSubmit String_scalar (Response 200 (Some JNull)) ann_login empty_world))
     \<noteq> Some (JStr ''No session token returned from server.'')
   \<and> localStorage (snd (handleAuthSubmit String_scalar (Response 200 (Some JNull)) ann_login empty_world))
     = localStorage empty_world
   \<and> router (snd (handleAuthSubmit String_scalar (Response 200 (Some JNull)) ann_login empty_world)) = []"
  by (simp add: handleAuthSubmit_def Let_def send_def ann_login_def trim_ann trim_s3cret ok_def
        message_or_def null_property_message_def empty_world_def)

text \<open>With a token that is a string, the session is stored and the router goes to Discovery.\<close>

lemma login_stores_session:
  assumes "authMode s = login" "trim (username s) \<noteq> []" "trim (password s) \<noteq> []" "ok code"
    and "read_property d ''sessionToken'' = Inr (Some (JStr tok))" "tok \<noteq> []"
  shows "localStorage (snd (handleAuthSubmit String (Response code (Some d)) s w))
           = \<lparr>mp_sessionToken = Some tok, mp_username = Some (trim (username s))\<rparr>
     \<and> router (snd (handleAuthSubmit String (Response code (Some d)) s w))
         = router w @ [Push ''/discover'']
     \<and> authError (fst (handleAuthSubmit String (Response code (Some d)) s w)) = None"
  using assms
  by (cases d) (simp_all add: handleAuthSubmit_def Let_def send_def navigate_def)

section \<open>A rejected rating on the Account screen\<close>

lemma checked_rating_None: "checked_rating parsed = None \<longleftrightarrow> rating_rejected parsed"
  by (cases parsed) (auto simp add: checked_rating_def rating_rejected_def)

lemma read_rating_rejected:
  assumes "trim inp \<noteq> []" "rating_rejected (Number (trim inp))"
  shows "read_rating Number initial warning (Some inp) = (initial, [warning])"
proof -
  from assms(2) have "checked_rating (Number (trim inp)) = None"
    by (simp add: checked_rating_None)
  with assms(1) show ?thesis
    by (simp add: read_rating_def)
qed

lemma account_markWatched_sends:
  assumes "sessionToken a = Some token" "token \<noteq> []"
  shows "hd (sent w (snd (account_markWatched Number movie ratingInput reviewInput res refetch a w)))
     = review_request token (m_id movie)
         (fst (read_rating Number (m_rating movie) account_invalid_rating ratingInput))
         (trim (read_review (case m_review movie of None \<Rightarrow> [] | Some r \<Rightarrow> r) reviewInput))"
    and "alerts (snd (account_markWatched Number movie ratingInput reviewInput res refetch a w))
     = alerts w @ snd (read_rating Number (m_rating movie)
                         account_invalid_rating ratingInput)"
proof -
  from assms have s: "sessionToken (a\<lparr>moviesError := None\<rparr>) = Some token"
    by simp
  note sends = fetchMovies_requests [OF s assms(2)]
  from assms show
    "hd (sent w (snd (account_markWatched Number movie ratingInput reviewInput res refetch a w)))
     = review_request token (m_id movie)
         (fst (read_rating Number (m_rating movie) account_invalid_rating ratingInput))
         (trim (read_review (case m_review movie of None \<Rightarrow> [] | Some r \<Rightarrow> r) reviewInput))"
    by (cases res)
       (simp_all add: account_markWatched_def Let_def sent_def sends send_def handleLogout_def
          navigate_def truthy_str_def review_request_def bearer_def content_json_def
          num_or_null_def str_or_null_def)
  from assms show
    "alerts (snd (account_markWatched Number movie ratingInput reviewInput res refetch a w))
     = alerts w @ snd (read_rating Number (m_rating movie) account_invalid_rating ratingInput)"
    by (cases res)
       (simp_all add: account_markWatched_def Let_def fetchMovies_alerts send_def handleLogout_def
          navigate_def truthy_str_def)
qed

lemma read_rating_blank:
  assumes "trim inp = []"
  shows "read_rating Number initial warning (Some inp) = (initial, [])"
  using assms by (simp add: read_rating_def)

lemma account_markWatched_not_aborted:
  assumes "sessionToken a = Some token" "token \<noteq> []"
  shows "sent w (snd (account_markWatched Number movie ratingInput reviewInput res refetch a w))
           \<noteq> []"
proof -
  from assms have s: "sessionToken (a\<lparr>moviesError := None\<rparr>) = Some token"
    by simp
  note sends = fetchMovies_requests [OF s assms(2)]
  from assms show ?thesis
    by (cases res)
       (simp_all add: account_markWatched_def Let_def sent_def sends send_def handleLogout_def
          navigate_def truthy_str_def)
qed

lemma trim_abc: "trim ''abc'' = ''abc''"
  by code_simp

lemma trim_blank: "trim '' '' = []"
  by code_simp

lemma trim_good: "trim ''good'' = ''good''"
  by code_simp

lemma trim_7: "trim ''7'' = ''7''"
  by code_simp

lemma Number_digits_abc: "Number_digits ''abc'' = NaN"
  by (simp add: Number_digits_def)

lemma Number_digits_7: "Number_digits ''7'' = Finite 7"
  by (simp add: Number_digits_def)

text \<open>
  C4, as the claim states it, fails on the Account screen. There \<open>ratingValue\<close> starts
  from the rating of the record, and a rejected input leaves it as it is: the record
  \<open>Heat\<close>, rated 3, answered with \<open>abc\<close>, is saved with the rating 3, not with
  \<open>null\<close>. And an input of white space only is not empty, but is read as a skipped
  prompt: no warning is shown.
\<close>

theorem account_markWatched_keeps_rating_counterexample:
  "trim ''abc'' \<noteq> [] \<and> Number_digits (trim ''abc'') = NaN
   \<and> m_rating seen_heat = Some 3
   \<and> alerts (snd (account_markWatched Number_digits seen_heat (Some ''abc'') None (Response 200 ())
                     (Response 200 (Inr [seen_heat])) ann_account ann_world))
       = [account_invalid_rating]
   \<and> map req_body
        (requests (snd (account_markWatched Number_digits seen_heat (Some ''abc'') None
                          (Response 200 ()) (Response 200 (Inr [seen_heat])) ann_account ann_world)))
       = [Some (JObj [(''status'', JStr ''HAVE_WATCHED''), (''rating'', JNum 3),
                      (''review'', JStr ''good'')]),
          None]
   \<and> JNum 3 \<noteq> JNull
   \<and> '' '' \<noteq> []
   \<and> alerts (snd (account_markWatched Number_digits seen_heat (Some '' '') None (Response 200 ())
                     (Response 200 (Inr [seen_heat])) ann_account ann_world)) = []"
  by (simp add: account_markWatched_def Let_def read_rating_def read_review_def trim_abc trim_blank
        trim_good Number_digits_abc checked_rating_def seen_heat_def ann_account_def ann_world_def
        truthy_str_def send_def ok_def fetchMovies_def num_or_null_def str_or_null_def)

text \<open>
  C4, amended. In the mark-watched-and-review flow of the Account screen, whenever the
  rating input is not blank after trimming and is not numeric or outside \<open>[1,5]\<close>, the
  warning \<open>Invalid rating, must be 1-5.\<close> is shown and the action is not aborted: a
  request is sent, the first one is the \<open>PUT\<close>, and its body carries the rating the
  record already had (\<open>null\<close> only when it had none), with the status and the trimmed
  review. A rating input that is blank after trimming is a skipped prompt: no warning is
  shown, and the same \<open>PUT\<close> is sent with the rating the record already had.
\<close>

theorem account_markWatched_invalid_rating:
  assumes "sessionToken a = Some token" "token \<noteq> []"
  shows
    "(trim inp \<noteq> [] \<and> rating_rejected (Number (trim inp)) \<longrightarrow>
        alerts (snd (account_markWatched Number movie (Some inp) reviewInput res refetch a w))
          = alerts w @ [account_invalid_rating]
        \<and> sent w (snd (account_markWatched Number movie (Some inp) reviewInput res refetch a w))
            \<noteq> []
        \<and> hd (sent w (snd (account_markWatched Number movie (Some inp) reviewInput res refetch a w)))
            = review_request token (m_id movie) (m_rating movie)
                (trim (case reviewInput of
                         None \<Rightarrow> (case m_review movie of None \<Rightarrow> [] | Some r \<Rightarrow> r)
                       | Some r \<Rightarrow> r)))
     \<and> (trim inp = [] \<longrightarrow>
        alerts (snd (account_markWatched Number movie (Some inp) reviewInput res refetch a w))
          = alerts w
        \<and> sent w (snd (account_markWatched Number movie (Some inp) reviewInput res refetch a w))
            \<noteq> []
        \<and> hd (sent w (snd (account_markWatched Number movie (Some inp) reviewInput res refetch a w)))
            = review_request token (m_id movie) (m_rating movie)
                (trim (case reviewInput of
                         None \<Rightarrow> (case m_review movie of None \<Rightarrow> [] | Some r \<Rightarrow> r)
                       | Some r \<Rightarrow> r)))"
proof -
  note sends = account_markWatched_sends
         [OF assms, where w = w and Number = Number and movie = movie
            and ratingInput = "Some inp" and reviewInput = reviewInput and res = res
            and refetch = refetch]
  note sent = account_markWatched_not_aborted
         [OF assms, where w = w and Number = Number and movie = movie
            and ratingInput = "Some inp" and reviewInput = reviewInput and res = res
            and refetch = refetch]
  show ?thesis
  proof (intro conjI impI)
    assume "trim inp \<noteq> [] \<and> rating_rejected (Number (trim inp))"
    then have r: "read_rating Number (m_rating movie) account_invalid_rating (Some inp)
                    = (m_rating movie, [account_invalid_rating])"
      by (simp add: read_rating_rejected)
    from sends
    show "alerts (snd (account_markWatched Number movie (Some inp) reviewInput res refetch a w))
            = alerts w @ [account_invalid_rating]"
      "hd (sent w (snd (account_markWatched Number movie (Some inp) reviewInput res refetch a w)))
            = review_request token (m_id movie) (m_rating movie)
                (trim (case reviewInput of
                         None \<Rightarrow> (case m_review movie of None \<Rightarrow> [] | Some r \<Rightarrow> r)
                       | Some r \<Rightarrow> r))"
      by (simp_all add: r read_review_def)
  next
    assume "trim inp = []"
    then have r: "read_rating Number (m_rating movie) account_invalid_rating (Some inp)
                    = (m_rating movie, [])"
      by (rule read_rating_blank)
    from sends
    show "alerts (snd (account_markWatched Number movie (Some inp) reviewInput res refetch a w))
            = alerts w"
      "hd (sent w (snd (account_markWatched Number movie (Some inp) reviewInput res refetch a w)))
            = review_request token (m_id movie) (m_rating movie)
                (trim (case reviewInput of
                         None \<Rightarrow> (case m_review movie of None \<Rightarrow> [] | Some r \<Rightarrow> r)
                       | Some r \<Rightarrow> r))"
      by (simp_all add: r read_review_def)
  qed (rule sent)+
qed

theorem account_markWatched_invalid_rating_witness:
  "alerts (snd (account_markWatched Number_digits seen_heat (Some ''7'') (Some ''good'')
                  (Response 500 ()) (Response 200 (Inr [])) ann_account ann_world))
     = [account_invalid_rating]
   \<and> hd (sent ann_world
            (snd (account_markWatched Number_digits seen_heat (Some ''7'') (Some ''good'')
                    (Response 500 ()) (Response 200 (Inr [])) ann_account ann_world)))
       = review_request ''t0k3n'' ''m-1'' (Some 3) ''good''
   \<and> alerts (snd (account_markWatched Number_digits seen_heat (Some '' '') (Some ''good'')
                  (Response 500 ()) (Response 200 (Inr [])) ann_account ann_world))
     = []
   \<and> hd (sent ann_world
            (snd (account_markWatched Number_digits seen_heat (Some '' '') (Some ''good'')
                    (Response 500 ()) (Response 200 (Inr [])) ann_account ann_world)))
       = review_request ''t0k3n'' ''m-1'' (Some 3) ''good''"
proof -
  have h1: "sessionToken ann_account = Some ''t0k3n''" and h2: "''t0k3n'' \<noteq> []"
    by (simp_all add: ann_account_def)
  have h3: "trim ''7'' \<noteq> [] \<and> rating_rejected (Number_digits (trim ''7''))"
    by (simp add: trim_7 Number_digits_7 rating_rejected_def)
  have h4: "trim '' '' = []"
    by (rule trim_blank)
  note T = account_markWatched_invalid_rating
         [OF h1 h2, where Number = Number_digits and movie = seen_heat
            and reviewInput = "Some ''good''" and res = "Response 500 ()"
            and refetch = "Response 200 (Inr [])" and w = ann_world]
  from T [where inp = "''7''", THEN conjunct1, THEN mp, OF h3]
       T [where inp = "'' ''", THEN conjunct2, THEN mp, OF h4]
  show ?thesis
    by (simp add: seen_heat_def ann_world_def trim_good)
qed

text \<open>
  On the Discovery screen the same input is saved with no rating, as the text of its
  warning says.
\<close>

lemma discover_markWatched_invalid_rating:
  assumes "sessionToken d = Some token" "token \<noteq> []"
    and "trim inp \<noteq> []" "rating_rejected (Number (trim inp))"
  shows "alerts (snd (discover_markWatched Number entry (Some inp) reviewInput res d w))
           = alerts w @ [discover_invalid_rating]
     \<and> map req_body
          (sent w (snd (discover_markWatched Number entry (Some inp) reviewInput res d w)))
         = [Some (JObj [(''title'', JStr (dm_title entry)),
                        (''status'', JStr ''HAVE_WATCHED''),
                        (''rating'', JNull),
                        (''review'', str_or_null (trim (read_review [] reviewInput)))])]"
proof -
  have r: "read_rating Number None
             discover_invalid_rating (Some inp)
           = (None, [discover_invalid_rating])"
    using assms(3,4) by (rule read_rating_rejected)
  show ?thesis
    using assms(1,2)
    by (cases res)
       (simp_all add: discover_markWatched_def Let_def r sent_def send_def handleLogout_def
          navigate_def truthy_str_def num_or_null_def)
qed

section \<open>The status filter and the search\<close>




















lemma identity_not_runtime_lower: "\<not> runtime_lower (\<lambda>s. s)"
proof
  assume "runtime_lower (\<lambda>s. s)"
  then have "ascii ''A'' \<longrightarrow> ''A'' = map lower_char ''A''"
    unfolding runtime_lower_def by blast
  moreover have "map lower_char ''A'' = ''a''"
    by code_simp
  ultimately show False
    by (simp add: ascii_def)
qed




end
